theory Spec2Isabelle
  imports Complex_Main
begin

section \<open>Python values and errors\<close>

text \<open>
  Request payloads and feature dictionaries are Python dicts from string keys to JSON
  values. A number is a Python int or float, written \<open>Num\<close> with its exact value: Python
  floats are modelled by exact reals, so the theorems below speak about thresholds,
  bounds, which branch runs and which exception is raised, not about rounding in the
  last bit. JSON \<^verbatim>\<open>true\<close> and \<^verbatim>\<open>false\<close> are the Python ints 1 and 0 under another name
  and are written \<open>Num 1\<close> and \<open>Num 0\<close>. A JSON array or object is a Python list or dict,
  written \<open>Container\<close> with its truth value (whether it is non-empty). NaN and the
  infinities are outside the model: every number below is a finite one.
\<close>

datatype pyval = Num real | Str string | PNone | Container bool

text \<open>The exceptions (subclasses of \<^verbatim>\<open>Exception\<close>) the modelled code can raise.\<close>

datatype error = TypeError | ValueError | ZeroDivisionError | OverflowError | KeyError
  | IndexError | OtherError string

text \<open>
  A Python int has no bound, a float does: converting an int to float, which every
  mixed int and float arithmetic operation and \<^verbatim>\<open>float(v)\<close> do, raises OverflowError
  when the int rounds to a magnitude beyond the largest float, that is from
  \<open>2 ^ 1024 - 2 ^ 970\<close> on. A float is always below that magnitude, so a number at or
  beyond it is an int.
\<close>

definition float_overflows :: "real \<Rightarrow> bool" where
  "float_overflows x \<longleftrightarrow> \<bar>x\<bar> \<ge> 2 ^ 1024 - 2 ^ 970"

type_synonym pydict = "string \<rightharpoonup> pyval"

text \<open>\<^verbatim>\<open>d.get(k, default)\<close>: the default is used only when the key is absent.\<close>

definition dict_get :: "pydict \<Rightarrow> string \<Rightarrow> pyval \<Rightarrow> pyval" where
  "dict_get d k dflt = (case d k of None \<Rightarrow> dflt | Some v \<Rightarrow> v)"

text \<open>
  \<^verbatim>\<open>v > c\<close>, \<^verbatim>\<open>v >= c\<close>, \<^verbatim>\<open>v < c\<close>, \<^verbatim>\<open>v <= c\<close> against a
  numeric constant: Python 3 raises TypeError when \<^verbatim>\<open>v\<close> is a string, None, a list
  or a dict. Comparing an int of any size with a float does not raise.
\<close>

definition py_gt :: "pyval \<Rightarrow> real \<Rightarrow> error + bool" where
  "py_gt v c =
     (case v of Num x \<Rightarrow> Inr (x > c) | Str s \<Rightarrow> Inl TypeError | PNone \<Rightarrow> Inl TypeError
      | Container b \<Rightarrow> Inl TypeError)"

definition py_ge :: "pyval \<Rightarrow> real \<Rightarrow> error + bool" where
  "py_ge v c =
     (case v of Num x \<Rightarrow> Inr (x \<ge> c) | Str s \<Rightarrow> Inl TypeError | PNone \<Rightarrow> Inl TypeError
      | Container b \<Rightarrow> Inl TypeError)"

definition py_lt :: "pyval \<Rightarrow> real \<Rightarrow> error + bool" where
  "py_lt v c =
     (case v of Num x \<Rightarrow> Inr (x < c) | Str s \<Rightarrow> Inl TypeError | PNone \<Rightarrow> Inl TypeError
      | Container b \<Rightarrow> Inl TypeError)"

definition py_le :: "pyval \<Rightarrow> real \<Rightarrow> error + bool" where
  "py_le v c =
     (case v of Num x \<Rightarrow> Inr (x \<le> c) | Str s \<Rightarrow> Inl TypeError | PNone \<Rightarrow> Inl TypeError
      | Container b \<Rightarrow> Inl TypeError)"

text \<open>
  Truthiness of a value in a boolean context: 0, the empty string, None and an empty list
  or dict are false.
\<close>

definition truthy :: "pyval \<Rightarrow> bool" where
  "truthy v =
     (case v of Num x \<Rightarrow> x \<noteq> 0 | Str s \<Rightarrow> s \<noteq> [] | PNone \<Rightarrow> False | Container b \<Rightarrow> b)"

text \<open>
  \<^verbatim>\<open>round(x, 1)\<close>: to the nearest multiple of one tenth, a tie going to the even
  neighbour.
\<close>

definition py_round1 :: "real \<Rightarrow> real" where
  "py_round1 x =
     (let y = x * 10; f = \<lfloor>y\<rfloor> in
      if y - of_int f < 1 / 2 then of_int f / 10
      else if y - of_int f > 1 / 2 then of_int (f + 1) / 10
      else if even f then of_int f / 10 else of_int (f + 1) / 10)"

text \<open>Sequencing of computations that may raise: the first exception wins.\<close>

definition bindE :: "error + 'a \<Rightarrow> ('a \<Rightarrow> error + 'b) \<Rightarrow> error + 'b" where
  "bindE m f = (case m of Inl e \<Rightarrow> Inl e | Inr x \<Rightarrow> f x)"

section \<open>Basic risk assessment (\<^verbatim>\<open>MLService._assess_risk\<close>)\<close>

text \<open>
  The predictions dict handed to \<^verbatim>\<open>_assess_risk\<close> holds only floats: every entry is
  written as \<^verbatim>\<open>float(...)\<close> in \<^verbatim>\<open>predict\<close>. \<^verbatim>\<open>assess_risk_score\<close> is the
  final value of the local \<^verbatim>\<open>risk_score\<close>.
\<close>

type_synonym predictions = "string \<rightharpoonup> real"

definition pred_get :: "predictions \<Rightarrow> string \<Rightarrow> real \<Rightarrow> real" where
  "pred_get p k dflt = (case p k of None \<Rightarrow> dflt | Some v \<Rightarrow> v)"

definition cost_overrun_points :: "predictions \<Rightarrow> nat" where
  "cost_overrun_points p =
     (if pred_get p ''cost_overrun_pct'' 0 > 20 then 3
      else if pred_get p ''cost_overrun_pct'' 0 > 10 then 2
      else if pred_get p ''cost_overrun_pct'' 0 > 5 then 1
      else 0)"

definition delay_points :: "predictions \<Rightarrow> nat" where
  "delay_points p =
     (if pred_get p ''delay_months'' 0 > 6 then 3
      else if pred_get p ''delay_months'' 0 > 3 then 2
      else if pred_get p ''delay_months'' 0 > 1 then 1
      else 0)"

definition assess_risk_score :: "predictions \<Rightarrow> nat" where
  "assess_risk_score p = cost_overrun_points p + delay_points p"

definition assess_risk :: "predictions \<Rightarrow> string" where
  "assess_risk p =
     (if assess_risk_score p \<ge> 5 then ''High''
      else if assess_risk_score p \<ge> 3 then ''Medium''
      else ''Low'')"

text \<open>The order Low < Medium < High on the three levels \<^verbatim>\<open>_assess_risk\<close> returns.\<close>

definition level_rank :: "string \<Rightarrow> nat" where
  "level_rank l = (if l = ''High'' then 2 else if l = ''Medium'' then 1 else 0)"

section \<open>Confidence scores\<close>

text \<open>\<^verbatim>\<open>k in features and features[k] is not None\<close>.\<close>

definition present :: "pydict \<Rightarrow> string \<Rightarrow> bool" where
  "present d k = (case d k of None \<Rightarrow> False | Some v \<Rightarrow> v \<noteq> PNone)"

subsection \<open>Basic variant (\<^verbatim>\<open>MLService._calculate_confidence\<close>)\<close>

definition key_features :: "string list" where
  "key_features =
     [''Base_Cost_Cr'', ''Vendor_Reliability'', ''Material_Availability_Index'',
      ''Skilled_Manpower_pct'', ''Planned_Timeline_months'']"

definition completeness_factors :: "pydict \<Rightarrow> nat list" where
  "completeness_factors features = map (\<lambda>k. if present features k then 1 else 0) key_features"

definition base_confidence :: "pydict \<Rightarrow> real" where
  "base_confidence features =
     real (sum_list (completeness_factors features))
       / real (length (completeness_factors features)) * 100"

text \<open>
  The three quality tests run in source order; a comparison on a string or None raises
  TypeError and ends the call.
\<close>

definition quality_adjustments :: "pydict \<Rightarrow> error + real" where
  "quality_adjustments features =
     bindE (py_gt (dict_get features ''Vendor_Reliability'' (Num 0)) 0.8) (\<lambda>v.
     bindE (py_gt (dict_get features ''Material_Availability_Index'' (Num 0)) 0.8) (\<lambda>m.
     bindE (py_lt (dict_get features ''Historical_Delay_Count'' (Num 0)) 3) (\<lambda>h.
     Inr ((if v then 5 else 0) + (if m then 5 else 0) + (if h then 5 else 0)))))"

definition calculate_confidence :: "pydict \<Rightarrow> error + real" where
  "calculate_confidence features =
     bindE (quality_adjustments features) (\<lambda>q.
     Inr (py_round1 (min 100 (base_confidence features + q))))"

subsection \<open>Production variant (\<^verbatim>\<open>MLService._calculate_production_confidence\<close>)\<close>

definition required_features :: "string list" where
  "required_features =
     [''projectType'', ''state'', ''baseCost'', ''plannedTimeline'',
      ''vendorReliability'', ''materialAvailability'']"

definition completeness_score :: "pydict \<Rightarrow> nat" where
  "completeness_score features = length (filter (present features) required_features)"

definition completeness_ratio :: "pydict \<Rightarrow> real" where
  "completeness_ratio features =
     real (completeness_score features) / real (length required_features)"

text \<open>The \<^verbatim>\<open>if >= 0.8 / elif >= 0.6 / elif >= 0.4\<close> ladder of the vendor and material tests.\<close>

definition reliability_points :: "pyval \<Rightarrow> error + real" where
  "reliability_points v =
     bindE (py_ge v 0.8) (\<lambda>a. if a then Inr 15 else
     bindE (py_ge v 0.6) (\<lambda>b. if b then Inr 10 else
     bindE (py_ge v 0.4) (\<lambda>c. Inr (if c then 5 else 0))))"

definition env_risk_points :: "pyval \<Rightarrow> error + real" where
  "env_risk_points v =
     bindE (py_le v 0.3) (\<lambda>a. if a then Inr 10 else
     bindE (py_le v 0.5) (\<lambda>b. Inr (if b then 5 else 0)))"

definition hist_delay_points :: "pyval \<Rightarrow> error + real" where
  "hist_delay_points v =
     bindE (py_le v 2) (\<lambda>a. if a then Inr 10 else
     bindE (py_le v 5) (\<lambda>b. Inr (if b then 5 else 0)))"

definition quality_score :: "pydict \<Rightarrow> error + real" where
  "quality_score features =
     bindE (reliability_points (dict_get features ''vendorReliability'' (Num 0))) (\<lambda>v.
     bindE (reliability_points (dict_get features ''materialAvailability'' (Num 0))) (\<lambda>m.
     bindE (env_risk_points (dict_get features ''envRisk'' (Num 0.3))) (\<lambda>e.
     bindE (hist_delay_points (dict_get features ''historicalDelay'' (Num 1))) (\<lambda>h.
     Inr (v + m + e + h)))))"

text \<open>
  \<^verbatim>\<open>if features.get('latitude') and features.get('longitude')\<close>: the test is on the
  truthiness of the two values, \<^verbatim>\<open>get\<close> giving None for an absent key.
\<close>

definition geo_factors :: "pydict \<Rightarrow> real list" where
  "geo_factors features =
     (if truthy (dict_get features ''latitude'' PNone) \<and> truthy (dict_get features ''longitude'' PNone)
      then [5] else [])"

text \<open>The list \<^verbatim>\<open>confidence_factors\<close> as it stands before the final sum.\<close>

definition confidence_factors :: "pydict \<Rightarrow> error + real list" where
  "confidence_factors features =
     bindE (quality_score features) (\<lambda>q.
     Inr ([completeness_ratio features * 40, q] @ geo_factors features))"

definition calculate_production_confidence :: "pydict \<Rightarrow> error + real" where
  "calculate_production_confidence features =
     bindE (confidence_factors features) (\<lambda>fs.
     Inr (py_round1 (min 100 (sum_list fs))))"

text \<open>A field the quality tests can compare: absent (the numeric default is used) or a number.\<close>

definition numeric_or_absent :: "pydict \<Rightarrow> string \<Rightarrow> bool" where
  "numeric_or_absent d k =
     (case d k of
        None \<Rightarrow> True
      | Some v \<Rightarrow> (case v of Num x \<Rightarrow> True | Str s \<Rightarrow> False | PNone \<Rightarrow> False
                   | Container b \<Rightarrow> False))"

text \<open>The input with both geographic fields removed.\<close>

definition without_geo :: "pydict \<Rightarrow> pydict" where
  "without_geo features = features(''latitude'' := None, ''longitude'' := None)"

section \<open>Feature normalizer (\<^verbatim>\<open>PredictionService._convert_to_ml_format\<close>)\<close>

definition field_mapping :: "(string \<times> string) list" where
  "field_mapping =
     [(''projectType'', ''Project_Type''),
      (''terrainType'', ''Terrain''),
      (''baseEstimatedCost'', ''Base_Cost_Cr''),
      (''steelPriceIndex'', ''Steel_Price_Index''),
      (''cementPriceIndex'', ''Cement_Price_Index''),
      (''labourWageRate'', ''Labour_Wage_RsPerDay''),
      (''regulatoryDelayEstimate'', ''Regulatory_Delay_months''),
      (''historicalDelayPattern'', ''Historical_Delay_Count''),
      (''annualRainfall'', ''Avg_Annual_Rainfall_cm''),
      (''vendorReliabilityScore'', ''Vendor_Reliability''),
      (''materialAvailabilityIndex'', ''Material_Availability_Index''),
      (''demandSupplyPressure'', ''Demand_Supply_Pressure''),
      (''skilledManpowerAvailability'', ''Skilled_Manpower_pct''),
      (''plannedTimelineMonths'', ''Planned_Timeline_months'')]"

definition type_mapping :: "(string \<times> string) list" where
  "type_mapping =
     [(''substation'', ''Substation''),
      (''overhead-line'', ''Overhead Line''),
      (''underground-cable'', ''Underground Cable'')]"

definition terrain_mapping :: "(string \<times> string) list" where
  "terrain_mapping =
     [(''plains'', ''Plains''), (''hilly'', ''Hilly''), (''desert'', ''Desert''),
      (''coastal'', ''Coastal''), (''urban'', ''Urban''), (''mountainous'', ''Mountainous'')]"

definition pressure_mapping :: "(string \<times> string) list" where
  "pressure_mapping = [(''low'', ''Low''), (''medium'', ''Medium''), (''high'', ''High'')]"

definition delay_mapping :: "(string \<times> real) list" where
  "delay_mapping = [(''low'', 1), (''medium'', 3), (''high'', 5)]"

text \<open>
  \<^verbatim>\<open>table.get(value, default)\<close> on a table whose keys are strings: a number or None is
  never a key, so it gets the default; a list or dict is unhashable, and looking it up
  raises TypeError.
\<close>

definition table_get :: "(string \<times> 'a) list \<Rightarrow> pyval \<Rightarrow> 'a \<Rightarrow> error + 'a" where
  "table_get tbl value dflt =
     (case value of
        Str s \<Rightarrow> (case map_of tbl s of Some t \<Rightarrow> Inr t | None \<Rightarrow> Inr dflt)
      | Num x \<Rightarrow> Inr dflt
      | PNone \<Rightarrow> Inr dflt
      | Container b \<Rightarrow> Inl TypeError)"

text \<open>
  The body of the loop for one frontend key that is present: the special conversions,
  else the value as it is.
\<close>

definition convert_value :: "string \<Rightarrow> pyval \<Rightarrow> error + pyval" where
  "convert_value frontend_key value =
     (if frontend_key = ''projectType''
        then bindE (table_get type_mapping value ''Substation'') (\<lambda>t. Inr (Str t))
      else if frontend_key = ''terrainType''
        then bindE (table_get terrain_mapping value ''Plains'') (\<lambda>t. Inr (Str t))
      else if frontend_key = ''demandSupplyPressure''
        then bindE (table_get pressure_mapping value ''Medium'') (\<lambda>t. Inr (Str t))
      else if frontend_key = ''historicalDelayPattern''
        then bindE (table_get delay_mapping value 3) (\<lambda>n. Inr (Num n))
      else Inr value)"

fun map_fields :: "(string \<times> string) list \<Rightarrow> pydict \<Rightarrow> pydict \<Rightarrow> error + pydict" where
  "map_fields [] project_data ml_features = Inr ml_features"
| "map_fields ((frontend_key, ml_key) # rest) project_data ml_features =
     (case project_data frontend_key of
        None \<Rightarrow> map_fields rest project_data ml_features
      | Some value \<Rightarrow>
          (case convert_value frontend_key value of
             Inl e \<Rightarrow> Inl e
           | Inr converted \<Rightarrow> map_fields rest project_data (ml_features(ml_key \<mapsto> converted))))"

definition defaults :: "(string \<times> pyval) list" where
  "defaults =
     [(''Steel_Price_Index'', Num 100),
      (''Cement_Price_Index'', Num 100),
      (''Regulatory_Delay_months'', Num 0),
      (''Historical_Delay_Count'', Num 3),
      (''Avg_Annual_Rainfall_cm'', Num 100),
      (''Demand_Supply_Pressure'', Str ''Medium''),
      (''Planned_Timeline_months'', Num 12)]"

fun fill_defaults :: "(string \<times> pyval) list \<Rightarrow> pydict \<Rightarrow> pydict" where
  "fill_defaults [] ml_features = ml_features"
| "fill_defaults ((key, default_value) # rest) ml_features =
     fill_defaults rest
       (case ml_features key of
          None \<Rightarrow> ml_features(key \<mapsto> default_value)
        | Some v \<Rightarrow> ml_features)"

definition convert_to_ml_format :: "pydict \<Rightarrow> error + pydict" where
  "convert_to_ml_format project_data =
     bindE (map_fields field_mapping project_data Map.empty) (\<lambda>ml_features.
     Inr (fill_defaults defaults ml_features))"

text \<open>
  A vector in the canonical schema: its keys are among the canonical (ML) field names,
  the right-hand sides of \<^verbatim>\<open>field_mapping\<close>.
\<close>

definition canonical_fields :: "string list" where
  "canonical_fields = map snd field_mapping"

definition in_canonical_schema :: "pydict \<Rightarrow> bool" where
  "in_canonical_schema v = (dom v \<subseteq> set canonical_fields)"

text \<open>
  A complete canonical vector: what the normalizer returns for a payload giving a
  substation in hilly terrain with base cost 150.
\<close>

definition example_canonical_vector :: pydict where
  "example_canonical_vector =
     [''Project_Type'' \<mapsto> Str ''Substation'', ''Terrain'' \<mapsto> Str ''Hilly'',
      ''Base_Cost_Cr'' \<mapsto> Num 150, ''Steel_Price_Index'' \<mapsto> Num 100,
      ''Cement_Price_Index'' \<mapsto> Num 100, ''Labour_Wage_RsPerDay'' \<mapsto> Num 500,
      ''Regulatory_Delay_months'' \<mapsto> Num 0, ''Historical_Delay_Count'' \<mapsto> Num 3,
      ''Avg_Annual_Rainfall_cm'' \<mapsto> Num 100, ''Vendor_Reliability'' \<mapsto> Num 0.8,
      ''Material_Availability_Index'' \<mapsto> Num 0.8, ''Demand_Supply_Pressure'' \<mapsto> Str ''Medium'',
      ''Skilled_Manpower_pct'' \<mapsto> Num 70, ''Planned_Timeline_months'' \<mapsto> Num 12]"



text \<open>A field that can be looked up in a table: absent, or anything but a list or dict.\<close>

definition hashable_or_absent :: "pydict \<Rightarrow> string \<Rightarrow> bool" where
  "hashable_or_absent d k =
     (case d k of
        None \<Rightarrow> True
      | Some v \<Rightarrow> (case v of Num x \<Rightarrow> True | Str s \<Rightarrow> True | PNone \<Rightarrow> True
                   | Container b \<Rightarrow> False))"

section \<open>Rule-based fallback (\<^verbatim>\<open>PredictionService._fallback_predictions\<close>)\<close>

text \<open>
  Arithmetic of a payload value with a float, \<^verbatim>\<open>c - v\<close>, \<^verbatim>\<open>v * c\<close> and \<^verbatim>\<open>v + c\<close>: a
  string, None, list or dict operand raises TypeError, and an int beyond the float range
  raises OverflowError when it is converted. The right operand of the only sum in the
  source is \<^verbatim>\<open>delay_months = max(0, e)\<close>, which is the int \<^verbatim>\<open>0\<close> whenever it is zero
  (\<^verbatim>\<open>max\<close> gives its first argument unless \<^verbatim>\<open>e > 0\<close>) and a float otherwise: adding the
  int \<^verbatim>\<open>0\<close> converts nothing and cannot overflow.
\<close>

definition py_rsub :: "real \<Rightarrow> pyval \<Rightarrow> error + real" where
  "py_rsub c v =
     (case v of
        Num x \<Rightarrow> if float_overflows x then Inl OverflowError else Inr (c - x)
      | Str s \<Rightarrow> Inl TypeError
      | PNone \<Rightarrow> Inl TypeError
      | Container b \<Rightarrow> Inl TypeError)"

definition py_mul :: "pyval \<Rightarrow> real \<Rightarrow> error + real" where
  "py_mul v c =
     (case v of
        Num x \<Rightarrow> if float_overflows x then Inl OverflowError else Inr (x * c)
      | Str s \<Rightarrow> Inl TypeError
      | PNone \<Rightarrow> Inl TypeError
      | Container b \<Rightarrow> Inl TypeError)"

definition py_add :: "pyval \<Rightarrow> real \<Rightarrow> error + real" where
  "py_add v c =
     (case v of
        Num x \<Rightarrow> if float_overflows x \<and> c \<noteq> 0 then Inl OverflowError else Inr (x + c)
      | Str s \<Rightarrow> Inl TypeError
      | PNone \<Rightarrow> Inl TypeError
      | Container b \<Rightarrow> Inl TypeError)"

text \<open>A field such arithmetic accepts: absent, or a number within the float range.\<close>

definition float_or_absent :: "pydict \<Rightarrow> string \<Rightarrow> bool" where
  "float_or_absent d k =
     (case d k of
        None \<Rightarrow> True
      | Some v \<Rightarrow> (case v of Num x \<Rightarrow> \<not> float_overflows x | Str s \<Rightarrow> False | PNone \<Rightarrow> False
                   | Container b \<Rightarrow> False))"

definition terrain_multipliers :: "(string \<times> real) list" where
  "terrain_multipliers =
     [(''plains'', 1), (''hilly'', 1.15), (''desert'', 1.10),
      (''coastal'', 1.20), (''urban'', 1.25), (''mountainous'', 1.35)]"

subsection \<open>\<^verbatim>\<open>_calculate_data_completeness\<close>\<close>

definition required_fields :: "string list" where
  "required_fields =
     [''projectType'', ''terrainType'', ''baseEstimatedCost'', ''labourWageRate'',
      ''vendorReliabilityScore'', ''materialAvailabilityIndex'', ''skilledManpowerAvailability'']"

definition optional_fields :: "string list" where
  "optional_fields =
     [''steelPriceIndex'', ''cementPriceIndex'', ''regulatoryDelayEstimate'',
      ''annualRainfall'', ''demandSupplyPressure'', ''historicalDelayPattern'']"

definition calculate_data_completeness :: "pydict \<Rightarrow> real" where
  "calculate_data_completeness project_data =
     (let required_score = length (filter (present project_data) required_fields);
          optional_score = length (filter (present project_data) optional_fields);
          total_score = real (required_score * 2 + optional_score)
                          / real (length required_fields * 2 + length optional_fields) * 100
      in py_round1 total_score)"

subsection \<open>The fallback response\<close>

text \<open>
  The returned dict, without its constant empty \<^verbatim>\<open>recommendations\<close> and
  \<^verbatim>\<open>risk_factors\<close> entries and without \<^verbatim>\<open>prediction_date\<close> (the clock).
\<close>

record fallback_response =
  cost_overrun_probability :: real
  predicted_delay_months :: real
  predicted_total_cost :: real
  predicted_timeline_months :: real
  risk_category :: string
  confidence_score :: real
  model_version :: string
  data_completeness :: real
  response_note :: string

text \<open>The values of the locals \<^verbatim>\<open>cost_overrun\<close>, \<^verbatim>\<open>delay_months\<close> and \<^verbatim>\<open>risk\<close>.\<close>

definition fallback_cost_overrun :: "real \<Rightarrow> real \<Rightarrow> real" where
  "fallback_cost_overrun terrain_factor vendor_factor =
     max 0 (min 50 ((terrain_factor - 1) * 100 + (vendor_factor - 1) * 25))"

definition fallback_delay_months :: "real \<Rightarrow> real \<Rightarrow> real" where
  "fallback_delay_months terrain_factor vendor_factor =
     max 0 ((terrain_factor - 1) * 12 + (vendor_factor - 1) * 6)"

definition fallback_risk :: "real \<Rightarrow> real \<Rightarrow> string" where
  "fallback_risk cost_overrun delay_months =
     (if cost_overrun > 20 \<or> delay_months > 4 then ''High''
      else if cost_overrun > 10 \<or> delay_months > 2 then ''Medium''
      else ''Low'')"

definition fallback_predictions :: "pydict \<Rightarrow> error + fallback_response" where
  "fallback_predictions project_data =
     (let base_cost = dict_get project_data ''baseEstimatedCost'' (Num 1000);
          terrain = dict_get project_data ''terrainType'' (Str ''plains'');
          vendor_reliability = dict_get project_data ''vendorReliabilityScore'' (Num 0.8)
      in bindE (table_get terrain_multipliers terrain 1) (\<lambda>terrain_factor.
         bindE (py_rsub 2 vendor_reliability) (\<lambda>vendor_factor.
         let cost_overrun = fallback_cost_overrun terrain_factor vendor_factor;
             delay_months = fallback_delay_months terrain_factor vendor_factor;
             risk = fallback_risk cost_overrun delay_months
         in bindE (py_mul base_cost (1 + cost_overrun / 100)) (\<lambda>total_cost.
            bindE (py_add (dict_get project_data ''plannedTimelineMonths'' (Num 12)) delay_months) (\<lambda>timeline.
            Inr \<lparr> cost_overrun_probability = py_round1 cost_overrun,
                  predicted_delay_months = py_round1 delay_months,
                  predicted_total_cost = total_cost,
                  predicted_timeline_months = timeline,
                  risk_category = risk,
                  confidence_score = 60,
                  model_version = ''fallback-1.0'',
                  data_completeness = calculate_data_completeness project_data,
                  response_note = ''Using fallback prediction logic'' \<rparr>)))))"

subsection \<open>\<^verbatim>\<open>PredictionService.predict_project_outcomes\<close>\<close>

text \<open>
  The body of the \<^verbatim>\<open>try\<close> block (normalisation, the models' predictions,
  recommendations, risk factors and formatting) depends on the fitted estimators; it is
  the parameter \<open>ml_path\<close>, which returns the formatted response or raises. Any exception
  it raises is caught and \<^verbatim>\<open>_fallback_predictions\<close> runs in the handler; an exception
  raised there leaves \<^verbatim>\<open>predict_project_outcomes\<close>.
\<close>

datatype 'r outcome = MLResponse 'r | FallbackResponse fallback_response

definition predict_project_outcomes :: "(pydict \<Rightarrow> error + 'r) \<Rightarrow> pydict \<Rightarrow> error + 'r outcome" where
  "predict_project_outcomes ml_path project_data =
     (case ml_path project_data of
        Inr result \<Rightarrow> Inr (MLResponse result)
      | Inl e \<Rightarrow> (case fallback_predictions project_data of
                   Inl e' \<Rightarrow> Inl e'
                 | Inr fb \<Rightarrow> Inr (FallbackResponse fb)))"

section \<open>The ML service (\<^verbatim>\<open>MLService\<close>)\<close>

subsection \<open>Coercions\<close>

text \<open>
  \<^verbatim>\<open>float(v)\<close>: a number within the float range is kept, an int beyond it raises
  OverflowError, None, a list or a dict raises TypeError, and a string is parsed. The
  parsing of a string is Python's own; it is the parameter \<open>float_of_string\<close>, which
  gives the number a numeric string denotes and None for a string \<^verbatim>\<open>float\<close> rejects with
  ValueError.
\<close>

definition py_float :: "(string \<Rightarrow> real option) \<Rightarrow> pyval \<Rightarrow> error + real" where
  "py_float float_of_string v =
     (case v of
        Num x \<Rightarrow> if float_overflows x then Inl OverflowError else Inr x
      | Str s \<Rightarrow> (case float_of_string s of Some x \<Rightarrow> Inr x | None \<Rightarrow> Inl ValueError)
      | PNone \<Rightarrow> Inl TypeError
      | Container b \<Rightarrow> Inl TypeError)"

text \<open>\<^verbatim>\<open>a / b\<close> on two floats.\<close>

definition py_truediv :: "real \<Rightarrow> real \<Rightarrow> error + real" where
  "py_truediv a b = (if b = 0 then Inl ZeroDivisionError else Inr (a / b))"

text \<open>
  \<^verbatim>\<open>str(v)\<close> never raises. The text of a number, list or dict is kept symbolic: it is
  never one of the category names the service compares it with.
\<close>

datatype pytext = Lit string | ReprOf real | ReprOfContainer bool

definition py_str :: "pyval \<Rightarrow> pytext" where
  "py_str v =
     (case v of Str s \<Rightarrow> Lit s | Num x \<Rightarrow> ReprOf x | PNone \<Rightarrow> Lit ''None''
      | Container b \<Rightarrow> ReprOfContainer b)"

text \<open>
  For the concrete examples: the strings of ASCII digits, read as decimal numbers. It
  agrees with \<^verbatim>\<open>float\<close> on such strings of up to 300 digits and on strings of letters
  such as \<^verbatim>\<open>abc\<close>.
\<close>

definition digit_value :: "char \<Rightarrow> nat option" where
  "digit_value c = map_of (zip ''0123456789'' [0, 1, 2, 3, 4, 5, 6, 7, 8, 9]) c"

fun digits_value :: "string \<Rightarrow> nat \<Rightarrow> nat option" where
  "digits_value [] acc = Some acc"
| "digits_value (c # cs) acc =
     (case digit_value c of None \<Rightarrow> None | Some d \<Rightarrow> digits_value cs (acc * 10 + d))"

definition digits_to_float :: "string \<Rightarrow> real option" where
  "digits_to_float s = (if s = [] then None else map_option real (digits_value s 0))"

subsection \<open>The production feature frame (\<^verbatim>\<open>predict\<close>, lines 312-356)\<close>

datatype cell = Text pytext | Float real

type_synonym frame = "(string \<times> cell) list"

definition text_field :: "pydict \<Rightarrow> string \<Rightarrow> string \<Rightarrow> error + cell" where
  "text_field features k d = Inr (Text (py_str (dict_get features k (Str d))))"

definition float_field :: "(string \<Rightarrow> real option) \<Rightarrow> pydict \<Rightarrow> string \<Rightarrow> real \<Rightarrow> error + cell" where
  "float_field fos features k d =
     bindE (py_float fos (dict_get features k (Num d))) (\<lambda>x. Inr (Float x))"

text \<open>
  \<^verbatim>\<open>float(features.get('baseCost', 100)) / float(features.get('plannedTimeline', 24))\<close>
\<close>

definition cost_per_planned_month :: "(string \<Rightarrow> real option) \<Rightarrow> pydict \<Rightarrow> error + real" where
  "cost_per_planned_month fos features =
     bindE (py_float fos (dict_get features ''baseCost'' (Num 100))) (\<lambda>b.
     bindE (py_float fos (dict_get features ''plannedTimeline'' (Num 24))) (\<lambda>t.
     py_truediv b t))"

text \<open>The entries of the dict literal, in the order Python evaluates them.\<close>

definition features_row :: "(string \<Rightarrow> real option) \<Rightarrow> pydict \<Rightarrow> (string \<times> (error + cell)) list" where
  "features_row fos features =
     [(''Project_Type'', text_field features ''projectType'' ''Overhead Line''),
      (''State'', text_field features ''state'' ''Maharashtra''),
      (''Latitude'', float_field fos features ''latitude'' 19.0760),
      (''Longitude'', float_field fos features ''longitude'' 72.8777),
      (''Terrain'', text_field features ''terrain'' ''Plains''),
      (''Base_Cost_Cr'', float_field fos features ''baseCost'' 100),
      (''Steel_Price_Index'', float_field fos features ''steelPrice'' 100),
      (''Cement_Price_Index'', float_field fos features ''cementPrice'' 100),
      (''Labour_Wage_RsPerDay'', float_field fos features ''labourWage'' 500),
      (''Regulatory_Delay_months'', float_field fos features ''regulatoryDelay'' 2),
      (''Historical_Delay_Count'', float_field fos features ''historicalDelay'' 1),
      (''Avg_Annual_Rainfall_cm'', float_field fos features ''rainfall'' 120),
      (''Vendor_Reliability'', float_field fos features ''vendorReliability'' 0.8),
      (''Material_Availability_Index'', float_field fos features ''materialAvailability'' 0.8),
      (''Demand_Supply_Pressure'', text_field features ''demandSupplyPressure'' ''Medium''),
      (''Skilled_Manpower_pct'',
         bindE (py_float fos (dict_get features ''skilledManpower'' (Num 70)))
           (\<lambda>x. Inr (Float (x / 100)))),
      (''Delay_months'', float_field fos features ''delayMonths'' 0),
      (''Planned_Timeline_months'', float_field fos features ''plannedTimeline'' 24),
      (''Cost_per_planned_month'',
         bindE (cost_per_planned_month fos features) (\<lambda>c. Inr (Float c))),
      (''Env_Risk_Index'', float_field fos features ''envRisk'' 0.3)]"

text \<open>Building the row: the first entry that raises ends the construction.\<close>

fun collect :: "(string \<times> (error + 'a)) list \<Rightarrow> error + (string \<times> 'a) list" where
  "collect [] = Inr []"
| "collect ((k, r) # rest) =
     (case r of
        Inl e \<Rightarrow> Inl e
      | Inr v \<Rightarrow> (case collect rest of Inl e \<Rightarrow> Inl e | Inr vs \<Rightarrow> Inr ((k, v) # vs)))"

definition project_type_map :: "(string \<times> string) list" where
  "project_type_map = [(''Transmission'', ''Overhead Line''), (''Distribution'', ''Underground Cable'')]"

definition terrain_map :: "(string \<times> string) list" where
  "terrain_map = [(''Plain'', ''Plains''), (''Hill'', ''Hilly''), (''Mountain'', ''Mountainous'')]"

text \<open>\<^verbatim>\<open>if df.loc[0, col] in table: df.loc[0, col] = table[df.loc[0, col]]\<close>\<close>

definition remap_cell :: "(string \<times> string) list \<Rightarrow> cell \<Rightarrow> cell" where
  "remap_cell tbl c =
     (case c of
        Float x \<Rightarrow> c
      | Text t \<Rightarrow> (case t of
                     ReprOf x \<Rightarrow> c
                   | ReprOfContainer b \<Rightarrow> c
                   | Lit s \<Rightarrow> (case map_of tbl s of None \<Rightarrow> c | Some s' \<Rightarrow> Text (Lit s'))))"

definition remap_column :: "string \<Rightarrow> (string \<times> string) list \<Rightarrow> frame \<Rightarrow> frame" where
  "remap_column col tbl df = map (\<lambda>(c, v). if c = col then (c, remap_cell tbl v) else (c, v)) df"

definition expected_features :: "string list" where
  "expected_features =
     [''Project_Type'', ''State'', ''Latitude'', ''Longitude'', ''Terrain'',
      ''Base_Cost_Cr'', ''Steel_Price_Index'', ''Cement_Price_Index'',
      ''Labour_Wage_RsPerDay'', ''Regulatory_Delay_months'',
      ''Historical_Delay_Count'', ''Avg_Annual_Rainfall_cm'',
      ''Vendor_Reliability'', ''Material_Availability_Index'',
      ''Demand_Supply_Pressure'', ''Skilled_Manpower_pct'',
      ''Delay_months'', ''Planned_Timeline_months'',
      ''Cost_per_planned_month'', ''Env_Risk_Index'']"

text \<open>\<^verbatim>\<open>features_df[expected_features]\<close>: a missing column raises KeyError.\<close>

fun select_columns :: "string list \<Rightarrow> frame \<Rightarrow> error + frame" where
  "select_columns [] df = Inr []"
| "select_columns (c # cs) df =
     (case map_of df c of
        None \<Rightarrow> Inl KeyError
      | Some v \<Rightarrow> (case select_columns cs df of Inl e \<Rightarrow> Inl e | Inr vs \<Rightarrow> Inr ((c, v) # vs)))"

definition production_features :: "(string \<Rightarrow> real option) \<Rightarrow> pydict \<Rightarrow> error + frame" where
  "production_features fos features =
     bindE (collect (features_row fos features)) (\<lambda>features_df.
     select_columns expected_features
       (remap_column ''Terrain'' terrain_map
          (remap_column ''Project_Type'' project_type_map features_df)))"


subsection \<open>Service state\<close>

text \<open>
  A production pipeline is a fitted external estimator: \<^verbatim>\<open>float(model.predict(df)[0])\<close>
  gives a number or raises. The dict \<^verbatim>\<open>production_pipelines\<close> is kept as the list of its
  items in insertion order, which is the order the loop visits them; its keys are
  distinct.
\<close>

type_synonym pipeline = "frame \<Rightarrow> error + real"

record ('m, 'enc, 'sc) ml_service =
  models :: "string \<rightharpoonup> 'm"
  scalers :: "string \<rightharpoonup> 'sc"
  encoders :: "string \<rightharpoonup> 'enc"
  feature_columns :: "string list"
  models_loaded :: bool
  production_pipelines :: "(string \<times> pipeline) list"
  production_models_loaded :: bool

definition is_production_ready :: "('m, 'enc, 'sc) ml_service \<Rightarrow> bool" where
  "is_production_ready s \<longleftrightarrow> production_models_loaded s \<and> length (production_pipelines s) \<ge> 2"

subsection \<open>The production branch of \<^verbatim>\<open>predict\<close> (lines 311-369)\<close>

fun run_pipelines :: "(string \<times> pipeline) list \<Rightarrow> frame \<Rightarrow> pydict \<Rightarrow> pydict" where
  "run_pipelines [] features_df predictions = predictions"
| "run_pipelines ((model_name, model) # rest) features_df predictions =
     run_pipelines rest features_df
       (predictions(model_name \<mapsto>
          (case model features_df of Inr pred \<Rightarrow> Num pred | Inl e \<Rightarrow> Num 0)))"

definition predict_production ::
    "(string \<Rightarrow> real option) \<Rightarrow> ('m, 'enc, 'sc) ml_service \<Rightarrow> pydict \<Rightarrow> error + pydict" where
  "predict_production fos s features =
     bindE (production_features fos features) (\<lambda>features_df.
     Inr (run_pipelines (production_pipelines s) features_df Map.empty))"

subsection \<open>The fallback branch of \<^verbatim>\<open>predict\<close> (lines 371-407)\<close>

text \<open>
  A pandas float: division of numeric columns does not raise on a zero denominator, it
  gives an infinity or NaN.
\<close>

datatype pdfloat = Finite real | PosInf | NegInf | NaN

text \<open>\<^verbatim>\<open>df[k]\<close> on the one-row frame made from the feature dict: a missing column raises KeyError.\<close>

definition column :: "pydict \<Rightarrow> string \<Rightarrow> error + pyval" where
  "column df k = (case df k of None \<Rightarrow> Inl KeyError | Some v \<Rightarrow> Inr v)"

text \<open>
  \<^verbatim>\<open>df[a] / df[b]\<close>. Two numbers make numeric columns. A string, None, list or dict
  makes an object column, whose arithmetic is pandas' own: the parameter
  \<open>object_division\<close>.
\<close>

definition pd_truediv :: "(pyval \<Rightarrow> pyval \<Rightarrow> error + pdfloat) \<Rightarrow> pyval \<Rightarrow> pyval \<Rightarrow> error + pdfloat" where
  "pd_truediv object_division a b =
     (case a of
        Num x \<Rightarrow>
          (case b of
             Num y \<Rightarrow> Inr (if y \<noteq> 0 then Finite (x / y)
                           else if x > 0 then PosInf else if x < 0 then NegInf else NaN)
           | Str s \<Rightarrow> object_division a b
           | PNone \<Rightarrow> object_division a b
           | Container c \<Rightarrow> object_division a b)
      | Str s \<Rightarrow> object_division a b
      | PNone \<Rightarrow> object_division a b
      | Container c \<Rightarrow> object_division a b)"

text \<open>
  The first statement of \<^verbatim>\<open>_feature_engineering\<close>:
  \<^verbatim>\<open>df['Cost_per_Month'] = df['Base_Cost_Cr'] / df['Planned_Timeline_months']\<close>.
\<close>

definition cost_per_month :: "(pyval \<Rightarrow> pyval \<Rightarrow> error + pdfloat) \<Rightarrow> pydict \<Rightarrow> error + pdfloat" where
  "cost_per_month object_division df =
     bindE (column df ''Base_Cost_Cr'') (\<lambda>a.
     bindE (column df ''Planned_Timeline_months'') (\<lambda>b.
     pd_truediv object_division a b))"

text \<open>
  What the fallback branch takes from outside: Python's parsing of numeric strings,
  loading the saved models, pandas' object-column division, the rest of the feature
  preparation after \<^verbatim>\<open>Cost_per_Month\<close> (the other derived columns, column selection,
  encoders and scaler), and the estimators' \<^verbatim>\<open>predict\<close>, for the multi-output model
  (a row of values) and for a single-target model (one value).
\<close>

record ('m, 'enc, 'sc, 'x) inference_env =
  float_of_string :: "string \<Rightarrow> real option"
  load_models :: "('m, 'enc, 'sc) ml_service \<Rightarrow> error + ('m, 'enc, 'sc) ml_service"
  object_division :: "pyval \<Rightarrow> pyval \<Rightarrow> error + pdfloat"
  finish_features :: "('m, 'enc, 'sc) ml_service \<Rightarrow> pydict \<Rightarrow> pdfloat \<Rightarrow> error + 'x"
  predict_vector :: "'m \<Rightarrow> 'x \<Rightarrow> error + real list"
  predict_scalar :: "'m \<Rightarrow> 'x \<Rightarrow> error + real"

definition prepare_single_prediction_features ::
    "('m, 'enc, 'sc, 'x) inference_env \<Rightarrow> ('m, 'enc, 'sc) ml_service \<Rightarrow> pydict \<Rightarrow> error + 'x" where
  "prepare_single_prediction_features env s features =
     bindE (cost_per_month (object_division env) features) (\<lambda>cpm.
     finish_features env s features cpm)"

text \<open>The keys of \<^verbatim>\<open>model_configs\<close>, in order.\<close>

definition model_configs :: "string list" where
  "model_configs = [''cost_overrun'', ''delay_prediction'', ''cost_prediction'', ''timeline_prediction'']"

definition item :: "real list \<Rightarrow> nat \<Rightarrow> error + real" where
  "item xs i = (if i < length xs then Inr (xs ! i) else Inl IndexError)"

fun individual_predictions ::
    "('m, 'enc, 'sc, 'x) inference_env \<Rightarrow> (string \<rightharpoonup> 'm) \<Rightarrow> 'x \<Rightarrow> string list \<Rightarrow> predictions
       \<Rightarrow> error + predictions" where
  "individual_predictions env ms X [] predictions = Inr predictions"
| "individual_predictions env ms X (model_name # rest) predictions =
     (case ms model_name of
        None \<Rightarrow> individual_predictions env ms X rest predictions
      | Some m \<Rightarrow>
          (case predict_scalar env m X of
             Inl e \<Rightarrow> Inl e
           | Inr pred \<Rightarrow> individual_predictions env ms X rest (predictions(model_name \<mapsto> pred))))"

definition fallback_model_predictions ::
    "('m, 'enc, 'sc, 'x) inference_env \<Rightarrow> ('m, 'enc, 'sc) ml_service \<Rightarrow> 'x \<Rightarrow> string
       \<Rightarrow> error + predictions" where
  "fallback_model_predictions env s X prediction_type =
     (if prediction_type = ''all'' then
        (case models s ''multioutput'' of
           Some m \<Rightarrow>
             bindE (predict_vector env m X) (\<lambda>multi_pred.
             bindE (item multi_pred 0) (\<lambda>p0.
             bindE (item multi_pred 1) (\<lambda>p1.
             bindE (item multi_pred 2) (\<lambda>p2.
             bindE (item multi_pred 3) (\<lambda>p3.
             Inr [''delay_months'' \<mapsto> p0, ''cost_overrun_pct'' \<mapsto> p1,
                  ''total_cost_cr'' \<mapsto> p2, ''timeline_months'' \<mapsto> p3])))))
         | None \<Rightarrow> individual_predictions env (models s) X model_configs Map.empty)
      else
        (case models s prediction_type of
           Some m \<Rightarrow> bindE (predict_scalar env m X) (\<lambda>pred. Inr [prediction_type \<mapsto> pred])
         | None \<Rightarrow> Inr Map.empty))"

text \<open>The float predictions as entries of the returned dict.\<close>

definition num_dict :: "predictions \<Rightarrow> pydict" where
  "num_dict p = (\<lambda>k. map_option Num (p k))"

definition predict_fallback ::
    "('m, 'enc, 'sc, 'x) inference_env \<Rightarrow> ('m, 'enc, 'sc) ml_service \<Rightarrow> pydict \<Rightarrow> string
       \<Rightarrow> error + pydict \<times> ('m, 'enc, 'sc) ml_service" where
  "predict_fallback env s features prediction_type =
     bindE (if \<not> models_loaded s then load_models env s else Inr s) (\<lambda>s'.
     bindE (prepare_single_prediction_features env s' features) (\<lambda>X.
     bindE (fallback_model_predictions env s' X prediction_type) (\<lambda>predictions.
     bindE (calculate_confidence features) (\<lambda>confidence.
     Inr ((num_dict predictions)
            (''risk_assessment'' \<mapsto> Str (assess_risk predictions),
             ''confidence_score'' \<mapsto> Num confidence), s')))))"

subsection \<open>\<^verbatim>\<open>MLService.predict\<close>\<close>

text \<open>
  The result is the returned dict together with the service state (the fallback branch
  may load the saved models). An exception is logged and raised again.
\<close>

definition predict ::
    "('m, 'enc, 'sc, 'x) inference_env \<Rightarrow> ('m, 'enc, 'sc) ml_service \<Rightarrow> pydict \<Rightarrow> string
       \<Rightarrow> error + pydict \<times> ('m, 'enc, 'sc) ml_service" where
  "predict env s features prediction_type =
     (if production_models_loaded s \<and> length (production_pipelines s) > 0
      then bindE (predict_production (float_of_string env) s features) (\<lambda>predictions.
           Inr (predictions, s))
      else predict_fallback env s features prediction_type)"

subsection \<open>Example services\<close>

text \<open>
  An environment in which the saved models load as they are, feature preparation
  succeeds, object columns raise TypeError and the multi-output model predicts a delay of
  4 months, an overrun of 12 percent, a cost of 160 and a timeline of 28 months.
\<close>

definition example_env :: "(unit, unit, unit, unit) inference_env" where
  "example_env =
     \<lparr> float_of_string = digits_to_float,
       load_models = (\<lambda>s. Inr s),
       object_division = (\<lambda>a b. Inl TypeError),
       finish_features = (\<lambda>s features cpm. Inr ()),
       predict_vector = (\<lambda>m X. Inr [4, 12, 160, 28]),
       predict_scalar = (\<lambda>m X. Inr 12) \<rparr>"

definition fallback_only_service :: "(unit, unit, unit) ml_service" where
  "fallback_only_service =
     \<lparr> models = [''multioutput'' \<mapsto> ()], scalers = Map.empty, encoders = Map.empty,
       feature_columns = [], models_loaded = True,
       production_pipelines = [], production_models_loaded = False \<rparr>"

text \<open>The same service with exactly one production pipeline loaded.\<close>

definition one_pipeline_service :: "(unit, unit, unit) ml_service" where
  "one_pipeline_service =
     fallback_only_service
       \<lparr> production_pipelines := [(''cost_prediction'', \<lambda>df. Inr 120)],
         production_models_loaded := True \<rparr>"

text \<open>All three production pipelines loaded, the overrun pipeline raising in \<^verbatim>\<open>predict\<close>.\<close>

definition failing_overrun_service :: "(unit, unit, unit) ml_service" where
  "failing_overrun_service =
     fallback_only_service
       \<lparr> production_pipelines :=
           [(''cost_prediction'', \<lambda>df. Inr 120),
            (''overrun_prediction'', \<lambda>df. Inl (OtherError ''pipeline failed'')),
            (''timeline_prediction'', \<lambda>df. Inr 30)],
         production_models_loaded := True \<rparr>"

text \<open>The payload of \<^verbatim>\<open>test_simple.py\<close>.\<close>

definition test_project :: pydict where
  "test_project =
     [''projectType'' \<mapsto> Str ''Overhead Line'', ''state'' \<mapsto> Str ''Maharashtra'',
      ''terrain'' \<mapsto> Str ''Plains'', ''baseCost'' \<mapsto> Num 150,
      ''plannedTimeline'' \<mapsto> Num 24, ''vendorReliability'' \<mapsto> Num 0.8,
      ''materialAvailability'' \<mapsto> Num 0.8, ''demandSupplyPressure'' \<mapsto> Str ''Medium'']"

subsection \<open>Training and retraining\<close>















section \<open>Theorems\<close>

subsection \<open>Rounding to one decimal keeps bounds\<close>

lemma py_round1_nonneg: "0 \<le> x \<Longrightarrow> 0 \<le> py_round1 x"
proof -
  assume "0 \<le> x"
  then have "0 \<le> \<lfloor>x * 10\<rfloor>" by simp
  then show ?thesis by (simp add: py_round1_def Let_def)
qed

lemma py_round1_upper: 
  assumes "x \<le> of_int N / 10"
  shows "py_round1 x \<le> of_int N / 10"
proof -
  let ?y = "x * 10"
  let ?f = "\<lfloor>?y\<rfloor>"
  have yN: "?y \<le> of_int N" using assms by simp
  then have fN: "?f \<le> N" by (simp add: floor_le_iff)
  have up: "?y - of_int ?f \<ge> 1 / 2 \<Longrightarrow> ?f + 1 \<le> N"
  proof -
    assume "?y - of_int ?f \<ge> 1 / 2"
    then have "of_int ?f < ?y" by linarith
    with yN have "(of_int ?f :: real) < of_int N" by linarith
    then have "?f < N" by simp
    then show ?thesis by simp
  qed
  have a: "(of_int ?f :: real) / 10 \<le> of_int N / 10" using fN by simp
  have b: "?y - of_int ?f \<ge> 1 / 2 \<Longrightarrow> (of_int (?f + 1) :: real) / 10 \<le> of_int N / 10"
  proof -
    assume "?y - of_int ?f \<ge> 1 / 2"
    from up [OF this] have "(of_int (?f + 1) :: real) \<le> of_int N" by (simp only: of_int_le_iff)
    then show ?thesis by simp
  qed
  show ?thesis
    unfolding py_round1_def Let_def
    using a b by (auto simp: not_less)
qed

lemma py_round1_le_100: "x \<le> 100 \<Longrightarrow> py_round1 x \<le> 100"
  using py_round1_upper [of x 1000] by simp

lemma py_round1_le_50: "x \<le> 50 \<Longrightarrow> py_round1 x \<le> 50"
  using py_round1_upper [of x 500] by simp

lemma py_round1_of_int: "py_round1 (of_int n) = of_int n"
  by (simp add: py_round1_def Let_def)

subsection \<open>The float range\<close>

lemma small_in_float_range: "\<bar>x\<bar> \<le> 1000000 \<Longrightarrow> \<not> float_overflows x"
  by (simp add: float_overflows_def)

lemma default_values_in_float_range:
  "\<not> float_overflows 0" "\<not> float_overflows 0.3" "\<not> float_overflows 0.8"
  "\<not> float_overflows 1" "\<not> float_overflows 2" "\<not> float_overflows 12"
  "\<not> float_overflows 24" "\<not> float_overflows 70" "\<not> float_overflows 100"
  "\<not> float_overflows 120" "\<not> float_overflows 150" "\<not> float_overflows 500"
  "\<not> float_overflows 1000" "\<not> float_overflows 19.0760" "\<not> float_overflows 72.8777"
  by (simp_all add: float_overflows_def)

lemma beyond_float_range: "float_overflows (10 ^ 400)"
  by (simp add: float_overflows_def)

subsection \<open>Basic risk score\<close>

lemma cost_overrun_points_mono:
  "p ''cost_overrun_pct'' = Some x \<Longrightarrow> x \<le> y \<Longrightarrow>
   cost_overrun_points p \<le> cost_overrun_points (p(''cost_overrun_pct'' \<mapsto> y))"
  by (simp add: cost_overrun_points_def pred_get_def)

lemma delay_points_unchanged:
  "delay_points (p(''cost_overrun_pct'' \<mapsto> y)) = delay_points p"
  by (simp add: delay_points_def pred_get_def)

lemma level_rank_mono:
  "assess_risk_score p \<le> assess_risk_score q \<Longrightarrow>
   level_rank (assess_risk p) \<le> level_rank (assess_risk q)"
  by (simp add: assess_risk_def level_rank_def)

text \<open>
  Claim C7. The basic risk score is monotonic in the cost-overrun percentage: when a
  predictions mapping is changed only by raising its \<^verbatim>\<open>cost_overrun_pct\<close> entry, the risk
  score does not decrease, and neither does the risk level in the order
  Low < Medium < High.
\<close>

theorem assess_risk_monotone_in_cost_overrun:
  assumes "p ''cost_overrun_pct'' = Some x" and "x \<le> y"
  shows "assess_risk_score p \<le> assess_risk_score (p(''cost_overrun_pct'' \<mapsto> y))
       \<and> level_rank (assess_risk p) \<le> level_rank (assess_risk (p(''cost_overrun_pct'' \<mapsto> y)))"
proof -
  have s: "assess_risk_score p \<le> assess_risk_score (p(''cost_overrun_pct'' \<mapsto> y))"
    unfolding assess_risk_score_def
    using assms cost_overrun_points_mono [of p x y] delay_points_unchanged [of p y] by simp
  from s level_rank_mono show ?thesis by blast
qed

theorem assess_risk_monotone_in_cost_overrun_witness:
  "assess_risk_score [''cost_overrun_pct'' \<mapsto> 8, ''delay_months'' \<mapsto> 4]
     \<le> assess_risk_score [''cost_overrun_pct'' \<mapsto> 25, ''delay_months'' \<mapsto> 4]
   \<and> assess_risk [''cost_overrun_pct'' \<mapsto> 8, ''delay_months'' \<mapsto> 4] = ''Medium''
   \<and> assess_risk [''cost_overrun_pct'' \<mapsto> 25, ''delay_months'' \<mapsto> 4] = ''High''"
proof -
  have "assess_risk_score [''cost_overrun_pct'' \<mapsto> 8, ''delay_months'' \<mapsto> 4]
     \<le> assess_risk_score ([''cost_overrun_pct'' \<mapsto> 8, ''delay_months'' \<mapsto> 4](''cost_overrun_pct'' \<mapsto> 25))"
    using assess_risk_monotone_in_cost_overrun
      [of "[''cost_overrun_pct'' \<mapsto> 8, ''delay_months'' \<mapsto> 4]" 8 25]
    by simp
  moreover have "[''cost_overrun_pct'' \<mapsto> 8, ''delay_months'' \<mapsto> (4::real)](''cost_overrun_pct'' \<mapsto> 25)
      = [''cost_overrun_pct'' \<mapsto> 25, ''delay_months'' \<mapsto> 4]"
    by (rule ext) simp
  ultimately show ?thesis
    by (simp add: assess_risk_def assess_risk_score_def cost_overrun_points_def
        delay_points_def pred_get_def)
qed

subsection \<open>Confidence scores\<close>

lemma quality_adjustments_ok:
  assumes "numeric_or_absent f ''Vendor_Reliability''" "numeric_or_absent f ''Material_Availability_Index''"
    "numeric_or_absent f ''Historical_Delay_Count''"
  shows "\<exists>q. quality_adjustments f = Inr q"
  using assms
  by (auto simp: quality_adjustments_def numeric_or_absent_def bindE_def py_gt_def py_lt_def dict_get_def
      split: option.splits pyval.splits)

lemma quality_adjustments_values:
  "quality_adjustments f = Inr q \<Longrightarrow> q \<in> {0, 5, 10, 15}"
  by (auto simp: quality_adjustments_def bindE_def split: sum.splits if_splits)

lemma base_confidence_bounds: "0 \<le> base_confidence f \<and> base_confidence f \<le> 100"
  by (simp add: base_confidence_def completeness_factors_def key_features_def)

lemma base_confidence_zero: "sum_list (completeness_factors f) = 0 \<Longrightarrow> base_confidence f = 0"
  by (simp add: base_confidence_def)

lemma calculate_confidence_range:
  assumes "quality_adjustments f = Inr q"
  shows "\<exists>c. calculate_confidence f = Inr c \<and> 0 \<le> c \<and> c \<le> 100"
proof -
  have q0: "0 \<le> q" using quality_adjustments_values [OF assms] by auto
  have "0 \<le> min 100 (base_confidence f + q)" using q0 base_confidence_bounds [of f] by simp
  moreover have "min 100 (base_confidence f + q) \<le> 100" by simp
  ultimately have "0 \<le> py_round1 (min 100 (base_confidence f + q)) \<and> py_round1 (min 100 (base_confidence f + q)) \<le> 100"
    using py_round1_nonneg py_round1_le_100 by blast
  then show ?thesis using assms by (simp add: calculate_confidence_def bindE_def)
qed

lemma calculate_confidence_zero_completeness:
  assumes "sum_list (completeness_factors f) = 0"
  shows "calculate_confidence f = quality_adjustments f"
proof (cases "quality_adjustments f")
  case (Inl e)
  then show ?thesis by (simp add: calculate_confidence_def bindE_def)
next
  case (Inr q)
  from quality_adjustments_values [OF Inr] obtain n :: int where n: "q = of_int n" "0 \<le> n" "n \<le> 15"
    by (auto intro: that [of 0] that [of 5] that [of 10] that [of 15])
  have "min 100 (base_confidence f + q) = of_int n"
    using n base_confidence_zero [OF assms] by simp
  then show ?thesis using Inr n py_round1_of_int [of n]
    by (simp add: calculate_confidence_def bindE_def)
qed

lemma reliability_points_values: "reliability_points v = Inr r \<Longrightarrow> r \<in> {0, 5, 10, 15}"
  by (auto simp: reliability_points_def bindE_def split: sum.splits if_splits)

lemma env_risk_points_values: "env_risk_points v = Inr r \<Longrightarrow> r \<in> {0, 5, 10}"
  by (auto simp: env_risk_points_def bindE_def split: sum.splits if_splits)

lemma hist_delay_points_values: "hist_delay_points v = Inr r \<Longrightarrow> r \<in> {0, 5, 10}"
  by (auto simp: hist_delay_points_def bindE_def split: sum.splits if_splits)

lemma points_total:
  "reliability_points (Num x) \<noteq> Inl e" "env_risk_points (Num x) \<noteq> Inl e" "hist_delay_points (Num x) \<noteq> Inl e"
  by (simp_all add: reliability_points_def env_risk_points_def hist_delay_points_def bindE_def py_ge_def py_le_def)


lemma quality_score_values:
  assumes "quality_score f = Inr q"
  shows "\<exists>n::int. q = of_int n \<and> 0 \<le> n \<and> n \<le> 50"
proof -
  from assms obtain v m e h where
    v: "reliability_points (dict_get f ''vendorReliability'' (Num 0)) = Inr v" and
    m: "reliability_points (dict_get f ''materialAvailability'' (Num 0)) = Inr m" and
    e: "env_risk_points (dict_get f ''envRisk'' (Num 0.3)) = Inr e" and
    h: "hist_delay_points (dict_get f ''historicalDelay'' (Num 1)) = Inr h" and
    q: "q = v + m + e + h"
    by (auto simp: quality_score_def bindE_def split: sum.splits)
  from reliability_points_values [OF v] obtain a :: int where a: "v = of_int a" "0 \<le> a" "a \<le> 15"
    by (auto intro: that [of 0] that [of 5] that [of 10] that [of 15])
  from reliability_points_values [OF m] obtain b :: int where b: "m = of_int b" "0 \<le> b" "b \<le> 15"
    by (auto intro: that [of 0] that [of 5] that [of 10] that [of 15])
  from env_risk_points_values [OF e] obtain c :: int where c: "e = of_int c" "0 \<le> c" "c \<le> 10"
    by (auto intro: that [of 0] that [of 5] that [of 10])
  from hist_delay_points_values [OF h] obtain d :: int where d: "h = of_int d" "0 \<le> d" "d \<le> 10"
    by (auto intro: that [of 0] that [of 5] that [of 10])
  have "q = of_int (a + b + c + d)" using q a b c d by simp
  moreover have "0 \<le> a + b + c + d" "a + b + c + d \<le> 50" using a b c d by linarith+
  ultimately show ?thesis by blast
qed

lemma numeric_dict_get:
  "numeric_or_absent f k \<Longrightarrow> \<exists>x. dict_get f k (Num d) = Num x"
  by (auto simp: numeric_or_absent_def dict_get_def split: option.splits pyval.splits)

lemma quality_score_ok:
  assumes "numeric_or_absent f ''vendorReliability''" "numeric_or_absent f ''materialAvailability''"
    "numeric_or_absent f ''envRisk''" "numeric_or_absent f ''historicalDelay''"
  shows "\<exists>q. quality_score f = Inr q"
proof -
  from numeric_dict_get [OF assms(1), of 0] obtain x1 where x1: "dict_get f ''vendorReliability'' (Num 0) = Num x1" by blast
  from numeric_dict_get [OF assms(2), of 0] obtain x2 where x2: "dict_get f ''materialAvailability'' (Num 0) = Num x2" by blast
  from numeric_dict_get [OF assms(3), of "0.3"] obtain x3 where x3: "dict_get f ''envRisk'' (Num 0.3) = Num x3" by blast
  from numeric_dict_get [OF assms(4), of 1] obtain x4 where x4: "dict_get f ''historicalDelay'' (Num 1) = Num x4" by blast
  obtain v where v: "reliability_points (Num x1) = Inr v" using points_total(1) [of x1] by (cases "reliability_points (Num x1)") auto
  obtain m where m: "reliability_points (Num x2) = Inr m" using points_total(1) [of x2] by (cases "reliability_points (Num x2)") auto
  obtain e where e: "env_risk_points (Num x3) = Inr e" using points_total(2) [of x3] by (cases "env_risk_points (Num x3)") auto
  obtain h where h: "hist_delay_points (Num x4) = Inr h" using points_total(3) [of x4] by (cases "hist_delay_points (Num x4)") auto
  show ?thesis by (simp add: quality_score_def bindE_def x1 x2 x3 x4 v m e h)
qed

lemma geo_factors_cases: "geo_factors f = [] \<or> geo_factors f = [5]"
  by (simp add: geo_factors_def)

lemma completeness_ratio_bounds: "0 \<le> completeness_ratio f \<and> completeness_ratio f \<le> 1"
proof -
  have "completeness_score f \<le> length required_features"
    unfolding completeness_score_def by (rule length_filter_le)
  then show ?thesis by (simp add: completeness_ratio_def required_features_def)
qed

lemma calculate_production_confidence_range:
  assumes "quality_score f = Inr q"
  shows "\<exists>c. calculate_production_confidence f = Inr c \<and> 0 \<le> c \<and> c \<le> 100"
proof -
  let ?s = "sum_list ([completeness_ratio f * 40, q] @ geo_factors f)"
  from quality_score_values [OF assms] have q0: "0 \<le> q" by auto
  have "0 \<le> ?s" using q0 completeness_ratio_bounds [of f] geo_factors_cases [of f] by auto
  then have "0 \<le> min 100 ?s" by simp
  moreover have "min 100 ?s \<le> 100" by simp
  ultimately have "0 \<le> py_round1 (min 100 ?s) \<and> py_round1 (min 100 ?s) \<le> 100"
    using py_round1_nonneg py_round1_le_100 by blast
  then show ?thesis using assms
    by (simp add: calculate_production_confidence_def confidence_factors_def bindE_def)
qed

lemma calculate_production_confidence_zero_completeness:
  assumes "completeness_score f = 0"
  shows "calculate_production_confidence f
         = bindE (quality_score f) (\<lambda>q. Inr (q + sum_list (geo_factors f)))"
proof (cases "quality_score f")
  case (Inl e)
  then show ?thesis
    by (simp add: calculate_production_confidence_def confidence_factors_def bindE_def)
next
  case (Inr q)
  from quality_score_values [OF Inr] obtain n :: int where n: "q = of_int n" "0 \<le> n" "n \<le> 50" by blast
  obtain g :: int where g: "sum_list (geo_factors f) = of_int g" "0 \<le> g" "g \<le> 5"
    using geo_factors_cases [of f] by (auto intro: that [of 0] that [of 5])
  have r: "completeness_ratio f = 0" using assms by (simp add: completeness_ratio_def)
  have "sum_list ([completeness_ratio f * 40, q] @ geo_factors f) = of_int (n + g)"
    using r n g by simp
  moreover have "min 100 (of_int (n + g) :: real) = of_int (n + g)"
  proof -
    have "(of_int (n + g) :: real) \<le> of_int 100" using n g by (simp only: of_int_le_iff)
    then show ?thesis by simp
  qed
  ultimately show ?thesis using Inr n g py_round1_of_int [of "n + g"]
    by (simp add: calculate_production_confidence_def confidence_factors_def bindE_def)
qed

text \<open>
  Claim C6 (as amended). For every feature mapping whose quality fields are absent or
  numeric, the confidence score of either variant is computed and lies in [0, 100]; this
  covers the empty mapping, which scores 5 (basic) and 20 (production). With zero
  completeness the score is the quality contribution alone (basic), or the quality
  contribution plus the geographic bonus (production).
\<close>

theorem confidence_scores_in_range:
  "(numeric_or_absent features ''Vendor_Reliability''
      \<and> numeric_or_absent features ''Material_Availability_Index''
      \<and> numeric_or_absent features ''Historical_Delay_Count''
     \<longrightarrow> (\<exists>c. calculate_confidence features = Inr c \<and> 0 \<le> c \<and> c \<le> 100))
 \<and> (numeric_or_absent features ''vendorReliability''
      \<and> numeric_or_absent features ''materialAvailability''
      \<and> numeric_or_absent features ''envRisk''
      \<and> numeric_or_absent features ''historicalDelay''
     \<longrightarrow> (\<exists>c. calculate_production_confidence features = Inr c \<and> 0 \<le> c \<and> c \<le> 100))
 \<and> (sum_list (completeness_factors features) = 0
     \<longrightarrow> calculate_confidence features = quality_adjustments features)
 \<and> (completeness_score features = 0
     \<longrightarrow> calculate_production_confidence features
         = bindE (quality_score features) (\<lambda>q. Inr (q + sum_list (geo_factors features))))
 \<and> calculate_confidence Map.empty = Inr 5
 \<and> calculate_production_confidence Map.empty = Inr 20"
proof (intro conjI impI)
  assume "numeric_or_absent features ''Vendor_Reliability''
      \<and> numeric_or_absent features ''Material_Availability_Index''
      \<and> numeric_or_absent features ''Historical_Delay_Count''"
  then obtain q where "quality_adjustments features = Inr q"
    using quality_adjustments_ok [of features] by blast
  then show "\<exists>c. calculate_confidence features = Inr c \<and> 0 \<le> c \<and> c \<le> 100"
    by (rule calculate_confidence_range)
next
  assume "numeric_or_absent features ''vendorReliability''
      \<and> numeric_or_absent features ''materialAvailability''
      \<and> numeric_or_absent features ''envRisk''
      \<and> numeric_or_absent features ''historicalDelay''"
  then obtain q where "quality_score features = Inr q"
    using quality_score_ok [of features] by blast
  then show "\<exists>c. calculate_production_confidence features = Inr c \<and> 0 \<le> c \<and> c \<le> 100"
    by (rule calculate_production_confidence_range)
next
  assume "sum_list (completeness_factors features) = 0"
  then show "calculate_confidence features = quality_adjustments features"
    by (rule calculate_confidence_zero_completeness)
next
  assume "completeness_score features = 0"
  then show "calculate_production_confidence features
         = bindE (quality_score features) (\<lambda>q. Inr (q + sum_list (geo_factors features)))"
    by (rule calculate_production_confidence_zero_completeness)
next
  show "calculate_confidence Map.empty = Inr 5"
    by (simp add: calculate_confidence_def quality_adjustments_def bindE_def py_gt_def py_lt_def
        dict_get_def base_confidence_def completeness_factors_def key_features_def present_def
        py_round1_def Let_def)
next
  show "calculate_production_confidence Map.empty = Inr 20"
    by (simp add: calculate_production_confidence_def confidence_factors_def quality_score_def
        reliability_points_def env_risk_points_def hist_delay_points_def geo_factors_def
        truthy_def completeness_ratio_def completeness_score_def required_features_def bindE_def
        py_ge_def py_le_def dict_get_def present_def py_round1_def Let_def)
qed

theorem confidence_scores_in_range_witness:
  "(\<exists>c. calculate_confidence [''Vendor_Reliability'' \<mapsto> Num 0.9, ''Base_Cost_Cr'' \<mapsto> Num 150] = Inr c
        \<and> 0 \<le> c \<and> c \<le> 100)
 \<and> (\<exists>c. calculate_production_confidence [''vendorReliability'' \<mapsto> Num 0.9, ''baseCost'' \<mapsto> Num 150] = Inr c
        \<and> 0 \<le> c \<and> c \<le> 100)
 \<and> calculate_confidence [''Historical_Delay_Count'' \<mapsto> Num 1]
     = quality_adjustments [''Historical_Delay_Count'' \<mapsto> Num 1]
 \<and> calculate_production_confidence [''latitude'' \<mapsto> Num 19, ''longitude'' \<mapsto> Num 72]
     = bindE (quality_score [''latitude'' \<mapsto> Num 19, ''longitude'' \<mapsto> Num 72])
         (\<lambda>q. Inr (q + sum_list (geo_factors [''latitude'' \<mapsto> Num 19, ''longitude'' \<mapsto> Num 72])))"
  using confidence_scores_in_range [of "[''Vendor_Reliability'' \<mapsto> Num 0.9, ''Base_Cost_Cr'' \<mapsto> Num 150]"]
    confidence_scores_in_range [of "[''vendorReliability'' \<mapsto> Num 0.9, ''baseCost'' \<mapsto> Num 150]"]
    confidence_scores_in_range [of "[''Historical_Delay_Count'' \<mapsto> Num 1]"]
    confidence_scores_in_range [of "[''latitude'' \<mapsto> Num 19, ''longitude'' \<mapsto> Num 72]"]
  by (simp add: numeric_or_absent_def completeness_factors_def key_features_def present_def
      completeness_score_def required_features_def)

text \<open>
  A quality field holding None or a string makes the comparison raise TypeError, so no
  score is returned for such a mapping.
\<close>

theorem confidence_total_counterexample:
  "calculate_confidence [''Vendor_Reliability'' \<mapsto> PNone] = Inl TypeError
 \<and> calculate_production_confidence [''vendorReliability'' \<mapsto> Str ''0.9''] = Inl TypeError"
  by (simp add: calculate_confidence_def quality_adjustments_def calculate_production_confidence_def
      confidence_factors_def quality_score_def reliability_points_def bindE_def py_gt_def py_ge_def
      dict_get_def)

subsection \<open>Geographic bonus\<close>

lemma dict_get_without_geo:
  "k \<noteq> ''latitude'' \<Longrightarrow> k \<noteq> ''longitude'' \<Longrightarrow> dict_get (without_geo f) k d = dict_get f k d"
  by (simp add: without_geo_def dict_get_def)

lemma present_without_geo:
  "k \<noteq> ''latitude'' \<Longrightarrow> k \<noteq> ''longitude'' \<Longrightarrow> present (without_geo f) k = present f k"
  by (simp add: without_geo_def present_def)

lemma quality_score_without_geo: "quality_score (without_geo f) = quality_score f"
  by (simp add: quality_score_def dict_get_without_geo)

lemma completeness_ratio_without_geo: "completeness_ratio (without_geo f) = completeness_ratio f"
  by (simp add: completeness_ratio_def completeness_score_def required_features_def present_without_geo)

lemma geo_factors_without_geo: "geo_factors (without_geo f) = []"
  by (simp add: geo_factors_def without_geo_def dict_get_def truthy_def)

lemma confidence_factors_without_geo:
  "confidence_factors f = map_sum id (\<lambda>fs. fs @ geo_factors f) (confidence_factors (without_geo f))"
  by (simp add: confidence_factors_def quality_score_without_geo completeness_ratio_without_geo
      geo_factors_without_geo bindE_def split: sum.splits)

lemma geo_factors_iff:
  "geo_factors f = [5] \<longleftrightarrow>
     (\<exists>a b. f ''latitude'' = Some a \<and> f ''longitude'' = Some b \<and> truthy a \<and> truthy b)"
  by (auto simp: geo_factors_def dict_get_def truthy_def split: option.splits)

lemma geo_factors_zero:
  "f ''latitude'' = Some (Num 0) \<or> f ''longitude'' = Some (Num 0) \<Longrightarrow> geo_factors f = []"
  by (auto simp: geo_factors_def dict_get_def truthy_def)

lemma no_geo_same_confidence:
  "geo_factors f = [] \<Longrightarrow>
   calculate_production_confidence f = calculate_production_confidence (without_geo f)"
  by (simp add: calculate_production_confidence_def confidence_factors_without_geo [of f] bindE_def
      split: sum.splits)

text \<open>
  Claim C10. In the production confidence calculation the 5-point geographic bonus is
  given only when latitude and longitude are both present and truthy. An input whose
  latitude or longitude is 0 gets no bonus and scores exactly as the same input with no
  geographic fields; an input with both truthy gets the extra factor 5.
\<close>

theorem geo_bonus_needs_truthy_coordinates:
  "(features ''latitude'' = Some (Num 0) \<or> features ''longitude'' = Some (Num 0)
      \<longrightarrow> geo_factors features = []
        \<and> calculate_production_confidence features
            = calculate_production_confidence (without_geo features))
 \<and> (geo_factors features = [5] \<longleftrightarrow>
       (\<exists>a b. features ''latitude'' = Some a \<and> features ''longitude'' = Some b
              \<and> truthy a \<and> truthy b))
 \<and> (geo_factors features \<noteq> [5]
      \<longrightarrow> geo_factors features = []
        \<and> calculate_production_confidence features
            = calculate_production_confidence (without_geo features))
 \<and> (geo_factors features = [5]
      \<longrightarrow> confidence_factors features
            = map_sum id (\<lambda>fs. fs @ [5]) (confidence_factors (without_geo features)))"
proof (intro conjI impI)
  assume z: "features ''latitude'' = Some (Num 0) \<or> features ''longitude'' = Some (Num 0)"
  from geo_factors_zero [OF z] show "geo_factors features = []" .
  from geo_factors_zero [OF z] show "calculate_production_confidence features
            = calculate_production_confidence (without_geo features)"
    by (rule no_geo_same_confidence)
next
  show "geo_factors features = [5] \<longleftrightarrow>
       (\<exists>a b. features ''latitude'' = Some a \<and> features ''longitude'' = Some b
              \<and> truthy a \<and> truthy b)"
    by (rule geo_factors_iff)
next
  assume n: "geo_factors features \<noteq> [5]"
  with geo_factors_cases [of features] show e: "geo_factors features = []" by blast
  then show "calculate_production_confidence features
            = calculate_production_confidence (without_geo features)"
    by (rule no_geo_same_confidence)
next
  assume "geo_factors features = [5]"
  then show "confidence_factors features
            = map_sum id (\<lambda>fs. fs @ [5]) (confidence_factors (without_geo features))"
    using confidence_factors_without_geo [of features] by simp
qed

theorem geo_bonus_needs_truthy_coordinates_witness:
  "calculate_production_confidence [''latitude'' \<mapsto> Num 0, ''longitude'' \<mapsto> Num 72.8777]
     = calculate_production_confidence (without_geo [''latitude'' \<mapsto> Num 0, ''longitude'' \<mapsto> Num 72.8777])
 \<and> calculate_production_confidence [''latitude'' \<mapsto> Num 0, ''longitude'' \<mapsto> Num 72.8777] = Inr 20
 \<and> geo_factors [''latitude'' \<mapsto> Num 19.076, ''longitude'' \<mapsto> Num 72.8777] = [5]
 \<and> confidence_factors [''latitude'' \<mapsto> Num 19.076, ''longitude'' \<mapsto> Num 72.8777]
     = map_sum id (\<lambda>fs. fs @ [5])
         (confidence_factors (without_geo [''latitude'' \<mapsto> Num 19.076, ''longitude'' \<mapsto> Num 72.8777]))"
proof -
  have g: "geo_factors [''latitude'' \<mapsto> Num 19.076, ''longitude'' \<mapsto> Num 72.8777] = [5]"
    by (simp add: geo_factors_def dict_get_def truthy_def)
  have v: "calculate_production_confidence [''latitude'' \<mapsto> Num 0, ''longitude'' \<mapsto> Num 72.8777] = Inr 20"
    by (simp add: calculate_production_confidence_def confidence_factors_def quality_score_def
        reliability_points_def env_risk_points_def hist_delay_points_def geo_factors_def
        truthy_def completeness_ratio_def completeness_score_def required_features_def bindE_def
        py_ge_def py_le_def dict_get_def present_def py_round1_def Let_def)
  show ?thesis
    using g v
      geo_bonus_needs_truthy_coordinates [of "[''latitude'' \<mapsto> Num 0, ''longitude'' \<mapsto> Num 72.8777]"]
      geo_bonus_needs_truthy_coordinates [of "[''latitude'' \<mapsto> Num 19.076, ''longitude'' \<mapsto> Num 72.8777]"]
    by simp
qed

subsection \<open>Feature normalizer\<close>

lemma map_fields_absent:
  "(\<forall>fk \<in> fst ` set fm. pd fk = None) \<Longrightarrow> map_fields fm pd ml = Inr ml"
proof (induction fm arbitrary: ml)
  case Nil
  then show ?case by simp
next
  case (Cons p fm)
  obtain fk mk where p: "p = (fk, mk)" by (cases p)
  from Cons.prems p have "pd fk = None" "\<forall>fk \<in> fst ` set fm. pd fk = None" by auto
  then show ?case by (simp add: p Cons.IH)
qed

lemma canonical_not_frontend:
  "fk \<in> fst ` set field_mapping \<Longrightarrow> fk \<notin> set canonical_fields"
  by (auto simp: field_mapping_def canonical_fields_def)

lemma canonical_no_frontend_key:
  assumes "in_canonical_schema v" shows "\<forall>fk \<in> fst ` set field_mapping. v fk = None"
proof
  fix fk assume "fk \<in> fst ` set field_mapping"
  then have "fk \<notin> set canonical_fields" by (rule canonical_not_frontend)
  with assms have "fk \<notin> dom v" by (auto simp: in_canonical_schema_def)
  then show "v fk = None" by auto
qed

lemma convert_canonical:
  "in_canonical_schema v \<Longrightarrow> convert_to_ml_format v = Inr (fill_defaults defaults Map.empty)"
  by (simp add: convert_to_ml_format_def map_fields_absent canonical_no_frontend_key bindE_def)

lemma convert_empty: "convert_to_ml_format Map.empty = Inr (fill_defaults defaults Map.empty)"
  by (simp add: convert_to_ml_format_def map_fields_absent bindE_def)

lemma all_defaults_vector:
  "fill_defaults defaults Map.empty =
     [''Steel_Price_Index'' \<mapsto> Num 100, ''Cement_Price_Index'' \<mapsto> Num 100,
      ''Regulatory_Delay_months'' \<mapsto> Num 0, ''Historical_Delay_Count'' \<mapsto> Num 3,
      ''Avg_Annual_Rainfall_cm'' \<mapsto> Num 100, ''Demand_Supply_Pressure'' \<mapsto> Str ''Medium'',
      ''Planned_Timeline_months'' \<mapsto> Num 12]"
  by (simp add: defaults_def)

text \<open>
  Claim C8 (as amended). The normalizer reads only the frontend key names, so a vector
  already in the canonical schema is not returned unchanged: its normal form is the
  all-defaults vector (the normal form of the empty input), whatever its entries.
  Normalizing a canonical vector yields the same vector exactly when that vector is the
  all-defaults vector.
\<close>

theorem normalizing_canonical_vector_gives_defaults:
  assumes "in_canonical_schema v"
  shows "convert_to_ml_format v = convert_to_ml_format Map.empty
       \<and> convert_to_ml_format Map.empty =
           Inr [''Steel_Price_Index'' \<mapsto> Num 100, ''Cement_Price_Index'' \<mapsto> Num 100,
                ''Regulatory_Delay_months'' \<mapsto> Num 0, ''Historical_Delay_Count'' \<mapsto> Num 3,
                ''Avg_Annual_Rainfall_cm'' \<mapsto> Num 100, ''Demand_Supply_Pressure'' \<mapsto> Str ''Medium'',
                ''Planned_Timeline_months'' \<mapsto> Num 12]
       \<and> (convert_to_ml_format v = Inr v \<longleftrightarrow> Inr v = convert_to_ml_format Map.empty)"
proof -
  have a: "convert_to_ml_format v = convert_to_ml_format Map.empty"
    using convert_canonical [OF assms] convert_empty by simp
  have b: "convert_to_ml_format Map.empty =
           Inr [''Steel_Price_Index'' \<mapsto> Num 100, ''Cement_Price_Index'' \<mapsto> Num 100,
                ''Regulatory_Delay_months'' \<mapsto> Num 0, ''Historical_Delay_Count'' \<mapsto> Num 3,
                ''Avg_Annual_Rainfall_cm'' \<mapsto> Num 100, ''Demand_Supply_Pressure'' \<mapsto> Str ''Medium'',
                ''Planned_Timeline_months'' \<mapsto> Num 12]"
    using convert_empty all_defaults_vector by simp
  from a have c: "convert_to_ml_format v = Inr v \<longleftrightarrow> Inr v = convert_to_ml_format Map.empty"
    by auto
  from a b c show ?thesis by blast
qed

theorem normalizing_canonical_vector_gives_defaults_witness:
  "in_canonical_schema example_canonical_vector
 \<and> convert_to_ml_format example_canonical_vector = convert_to_ml_format Map.empty
 \<and> (\<exists>ml. convert_to_ml_format example_canonical_vector = Inr ml
         \<and> ml ''Planned_Timeline_months'' = Some (Num 12))"
proof -
  have c: "in_canonical_schema example_canonical_vector"
    by (simp add: example_canonical_vector_def in_canonical_schema_def canonical_fields_def
        field_mapping_def)
  from c normalizing_canonical_vector_gives_defaults [OF c] show ?thesis by simp
qed

lemma example_canonical_vector_is_normal_form:
  "convert_to_ml_format
       [''projectType'' \<mapsto> Str ''substation'', ''terrainType'' \<mapsto> Str ''hilly'',
        ''baseEstimatedCost'' \<mapsto> Num 150, ''labourWageRate'' \<mapsto> Num 500,
        ''vendorReliabilityScore'' \<mapsto> Num 0.8, ''materialAvailabilityIndex'' \<mapsto> Num 0.8,
        ''skilledManpowerAvailability'' \<mapsto> Num 70]
     = Inr example_canonical_vector"
proof -
  have "fill_defaults defaults
          [''Project_Type'' \<mapsto> Str ''Substation'', ''Terrain'' \<mapsto> Str ''Hilly'',
           ''Base_Cost_Cr'' \<mapsto> Num 150, ''Labour_Wage_RsPerDay'' \<mapsto> Num 500,
           ''Vendor_Reliability'' \<mapsto> Num 0.8, ''Material_Availability_Index'' \<mapsto> Num 0.8,
           ''Skilled_Manpower_pct'' \<mapsto> Num 70]
        = example_canonical_vector"
    by (rule ext) (simp add: example_canonical_vector_def defaults_def)
  then show ?thesis
    by (simp add: convert_to_ml_format_def field_mapping_def convert_value_def table_get_def
        type_mapping_def terrain_mapping_def bindE_def)
qed

text \<open>
  The vector below is in the canonical schema (it is the normalizer's own output on a
  frontend payload), and normalizing it again drops its \<^verbatim>\<open>Base_Cost_Cr\<close> entry.
\<close>

theorem normalizer_idempotence_counterexample:
  "in_canonical_schema example_canonical_vector
 \<and> example_canonical_vector ''Base_Cost_Cr'' = Some (Num 150)
 \<and> convert_to_ml_format example_canonical_vector
     = Inr [''Steel_Price_Index'' \<mapsto> Num 100, ''Cement_Price_Index'' \<mapsto> Num 100,
            ''Regulatory_Delay_months'' \<mapsto> Num 0, ''Historical_Delay_Count'' \<mapsto> Num 3,
            ''Avg_Annual_Rainfall_cm'' \<mapsto> Num 100, ''Demand_Supply_Pressure'' \<mapsto> Str ''Medium'',
            ''Planned_Timeline_months'' \<mapsto> Num 12]
 \<and> convert_to_ml_format example_canonical_vector \<noteq> Inr example_canonical_vector"
proof -
  have c: "in_canonical_schema example_canonical_vector"
    by (simp add: example_canonical_vector_def in_canonical_schema_def canonical_fields_def
        field_mapping_def)
  have a: "example_canonical_vector ''Base_Cost_Cr'' = Some (Num 150)"
    by (simp add: example_canonical_vector_def)
  have b: "convert_to_ml_format example_canonical_vector
     = Inr [''Steel_Price_Index'' \<mapsto> Num 100, ''Cement_Price_Index'' \<mapsto> Num 100,
            ''Regulatory_Delay_months'' \<mapsto> Num 0, ''Historical_Delay_Count'' \<mapsto> Num 3,
            ''Avg_Annual_Rainfall_cm'' \<mapsto> Num 100, ''Demand_Supply_Pressure'' \<mapsto> Str ''Medium'',
            ''Planned_Timeline_months'' \<mapsto> Num 12]"
    using convert_canonical [OF c] all_defaults_vector by simp
  have "fill_defaults defaults Map.empty ''Base_Cost_Cr'' = None"
    by (simp add: all_defaults_vector)
  with a have "fill_defaults defaults Map.empty \<noteq> example_canonical_vector"
    by (metis option.distinct(1))
  then have d: "convert_to_ml_format example_canonical_vector \<noteq> Inr example_canonical_vector"
    using convert_canonical [OF c] by simp
  from a b c d show ?thesis by blast
qed

subsection \<open>Rule-based fallback\<close>

lemma fallback_predictions_fields:
  assumes "fallback_predictions project_data = Inr fb"
  shows "0 \<le> cost_overrun_probability fb \<and> cost_overrun_probability fb \<le> 50
      \<and> 0 \<le> predicted_delay_months fb \<and> confidence_score fb = 60
      \<and> model_version fb = ''fallback-1.0''"
proof -
  from assms obtain tf vf tc tl where
    fb: "fb = \<lparr> cost_overrun_probability = py_round1 (fallback_cost_overrun tf vf),
                  predicted_delay_months = py_round1 (fallback_delay_months tf vf),
                  predicted_total_cost = tc,
                  predicted_timeline_months = tl,
                  risk_category = fallback_risk (fallback_cost_overrun tf vf) (fallback_delay_months tf vf),
                  confidence_score = 60,
                  model_version = ''fallback-1.0'',
                  data_completeness = calculate_data_completeness project_data,
                  response_note = ''Using fallback prediction logic'' \<rparr>"
    by (auto simp: fallback_predictions_def Let_def bindE_def split: sum.splits)
  have "0 \<le> fallback_cost_overrun tf vf" "fallback_cost_overrun tf vf \<le> 50"
    "0 \<le> fallback_delay_months tf vf"
    by (simp_all add: fallback_cost_overrun_def fallback_delay_months_def)
  then show ?thesis
    using py_round1_nonneg py_round1_le_50 by (simp add: fb)
qed

lemma float_dict_get:
  "float_or_absent d k \<Longrightarrow> \<not> float_overflows x \<Longrightarrow>
   \<exists>y. dict_get d k (Num x) = Num y \<and> \<not> float_overflows y"
  by (auto simp: float_or_absent_def dict_get_def split: option.splits pyval.splits)

lemma py_arith_total:
  assumes "float_or_absent d k" and "\<not> float_overflows x"
  shows "\<exists>y. py_rsub c (dict_get d k (Num x)) = Inr y"
    and "\<exists>y. py_mul (dict_get d k (Num x)) c = Inr y"
    and "\<exists>y. py_add (dict_get d k (Num x)) c = Inr y"
  using float_dict_get [OF assms] by (auto simp: py_rsub_def py_mul_def py_add_def)

lemma table_get_total:
  assumes "hashable_or_absent d k"
  shows "\<exists>t. table_get tbl (dict_get d k (Str x)) dflt = Inr t"
  using assms
  by (auto simp: hashable_or_absent_def dict_get_def table_get_def split: option.splits pyval.splits)

lemma fallback_predictions_returns:
  assumes "hashable_or_absent project_data ''terrainType''"
    and "float_or_absent project_data ''vendorReliabilityScore''"
    and "float_or_absent project_data ''baseEstimatedCost''"
    and "float_or_absent project_data ''plannedTimelineMonths''"
  shows "\<exists>fb. fallback_predictions project_data = Inr fb"
proof -
  from table_get_total [OF assms(1), of terrain_multipliers "''plains''" 1] obtain tf where
    tf: "table_get terrain_multipliers (dict_get project_data ''terrainType'' (Str ''plains'')) 1 = Inr tf"
    by blast
  from py_arith_total(1) [OF assms(2) default_values_in_float_range(3)] obtain vf where
    vf: "py_rsub 2 (dict_get project_data ''vendorReliabilityScore'' (Num 0.8)) = Inr vf" by blast
  from py_arith_total(2) [OF assms(3) default_values_in_float_range(13)] obtain tc where
    tc: "py_mul (dict_get project_data ''baseEstimatedCost'' (Num 1000))
           (1 + fallback_cost_overrun tf vf / 100) = Inr tc" by blast
  from py_arith_total(3) [OF assms(4) default_values_in_float_range(6)] obtain tl where
    tl: "py_add (dict_get project_data ''plannedTimelineMonths'' (Num 12))
           (fallback_delay_months tf vf) = Inr tl" by blast
  show ?thesis
    unfolding fallback_predictions_def Let_def tf vf bindE_def sum.case tc tl by blast
qed

text \<open>
  Claim C9 (as amended). When the ML prediction path raises and, in the payload,
  \<^verbatim>\<open>terrainType\<close> is absent or hashable (anything but a JSON array or object) and
  \<^verbatim>\<open>vendorReliabilityScore\<close>, \<^verbatim>\<open>baseEstimatedCost\<close> and \<^verbatim>\<open>plannedTimelineMonths\<close> are
  each absent or a number within the float range, \<^verbatim>\<open>predict_project_outcomes\<close> returns
  the rule-based fallback result, whose cost-overrun probability lies in [0, 50], whose
  predicted delay is non-negative, whose confidence score is 60 and whose model version
  is \<^verbatim>\<open>fallback-1.0\<close>.
\<close>

theorem fallback_on_ml_failure:
  assumes "ml_path project_data = Inl e"
    and "hashable_or_absent project_data ''terrainType''"
    and "float_or_absent project_data ''vendorReliabilityScore''"
    and "float_or_absent project_data ''baseEstimatedCost''"
    and "float_or_absent project_data ''plannedTimelineMonths''"
  shows "\<exists>fb. predict_project_outcomes ml_path project_data = Inr (FallbackResponse fb)
      \<and> fallback_predictions project_data = Inr fb
      \<and> 0 \<le> cost_overrun_probability fb \<and> cost_overrun_probability fb \<le> 50
      \<and> 0 \<le> predicted_delay_months fb \<and> confidence_score fb = 60
      \<and> model_version fb = ''fallback-1.0''"
proof -
  from fallback_predictions_returns [OF assms(2-5)] obtain fb where
    fb: "fallback_predictions project_data = Inr fb" by blast
  have "predict_project_outcomes ml_path project_data = Inr (FallbackResponse fb)"
    using assms(1) fb by (simp add: predict_project_outcomes_def)
  with fb fallback_predictions_fields [OF fb] show ?thesis by blast
qed

theorem fallback_on_ml_failure_witness:
  "\<exists>fb. predict_project_outcomes (\<lambda>pd. Inl (OtherError ''models unavailable'') :: error + unit)
          [''terrainType'' \<mapsto> Str ''mountainous'', ''vendorReliabilityScore'' \<mapsto> Num 0.5,
           ''baseEstimatedCost'' \<mapsto> Num 200] = Inr (FallbackResponse fb)
      \<and> 0 \<le> cost_overrun_probability fb \<and> cost_overrun_probability fb \<le> 50
      \<and> 0 \<le> predicted_delay_months fb \<and> confidence_score fb = 60
      \<and> model_version fb = ''fallback-1.0''"
  using fallback_on_ml_failure
    [of "\<lambda>pd. Inl (OtherError ''models unavailable'') :: error + unit"
        "[''terrainType'' \<mapsto> Str ''mountainous'', ''vendorReliabilityScore'' \<mapsto> Num 0.5,
           ''baseEstimatedCost'' \<mapsto> Num 200]" "OtherError ''models unavailable''"]
  by (auto simp: float_or_absent_def hashable_or_absent_def float_overflows_def)

text \<open>
  With the ML path failing, each of the following raises inside the handler, and the
  exception leaves \<^verbatim>\<open>predict_project_outcomes\<close>: a null vendor reliability
  (\<^verbatim>\<open>2.0 - None\<close>), a vendor reliability that is an int beyond the float range
  (\<^verbatim>\<open>2.0 - 10**400\<close>), and a terrain type that is a JSON array
  (\<^verbatim>\<open>terrain_multipliers.get\<close> of a list).
\<close>

theorem fallback_raises_counterexample:
  "predict_project_outcomes (\<lambda>pd. Inl (OtherError ''models unavailable'') :: error + unit)
     [''vendorReliabilityScore'' \<mapsto> PNone] = Inl TypeError
 \<and> predict_project_outcomes (\<lambda>pd. Inl (OtherError ''models unavailable'') :: error + unit)
     [''vendorReliabilityScore'' \<mapsto> Num (10 ^ 400)] = Inl OverflowError
 \<and> predict_project_outcomes (\<lambda>pd. Inl (OtherError ''models unavailable'') :: error + unit)
     [''terrainType'' \<mapsto> Container True] = Inl TypeError"
  using beyond_float_range
  by (simp add: predict_project_outcomes_def fallback_predictions_def Let_def bindE_def
      py_rsub_def dict_get_def table_get_def terrain_multipliers_def)

subsection \<open>Path selection and the production branch of \<^verbatim>\<open>predict\<close>\<close>

lemmas frame_defs = production_features_def features_row_def text_field_def float_field_def
  cost_per_planned_month_def py_float_def float_overflows_def py_truediv_def py_str_def
  dict_get_def bindE_def
  remap_column_def remap_cell_def project_type_map_def terrain_map_def expected_features_def

lemma canonical_frame:
  "production_features digits_to_float example_canonical_vector =
     Inr [(''Project_Type'', Text (Lit ''Overhead Line'')),
      (''State'', Text (Lit ''Maharashtra'')),
      (''Latitude'', Float 19.0760),
      (''Longitude'', Float 72.8777),
      (''Terrain'', Text (Lit ''Plains'')), (''Base_Cost_Cr'', Float 100),
      (''Steel_Price_Index'', Float 100),
      (''Cement_Price_Index'', Float 100),
      (''Labour_Wage_RsPerDay'', Float 500),
      (''Regulatory_Delay_months'', Float 2),
      (''Historical_Delay_Count'', Float 1),
      (''Avg_Annual_Rainfall_cm'', Float 120),
      (''Vendor_Reliability'', Float 0.8),
      (''Material_Availability_Index'', Float 0.8),
      (''Demand_Supply_Pressure'', Text (Lit ''Medium'')),
      (''Skilled_Manpower_pct'', Float 0.7),
      (''Delay_months'', Float 0), (''Planned_Timeline_months'', Float 24),
      (''Cost_per_planned_month'', Float (100 / 24)),
      (''Env_Risk_Index'', Float 0.3)]"
  by (simp add: frame_defs example_canonical_vector_def)

text \<open>
  With exactly one production pipeline loaded \<^verbatim>\<open>is_production_ready\<close> is false, yet
  \<^verbatim>\<open>predict\<close> returns that pipeline's prediction, not the result of the fallback branch.
\<close>

theorem one_pipeline_counterexample:
  "\<not> is_production_ready one_pipeline_service
 \<and> length (production_pipelines one_pipeline_service) = 1
 \<and> predict example_env one_pipeline_service example_canonical_vector ''all''
     = Inr ([''cost_prediction'' \<mapsto> Num 120], one_pipeline_service)
 \<and> predict_fallback example_env one_pipeline_service example_canonical_vector ''all''
     = Inr ([''delay_months'' \<mapsto> Num 4, ''cost_overrun_pct'' \<mapsto> Num 12,
             ''total_cost_cr'' \<mapsto> Num 160, ''timeline_months'' \<mapsto> Num 28,
             ''risk_assessment'' \<mapsto> Str ''Medium'', ''confidence_score'' \<mapsto> Num 100],
            one_pipeline_service)"
proof -
  have a: "\<not> is_production_ready one_pipeline_service"
    and b: "length (production_pipelines one_pipeline_service) = 1"
    by (simp_all add: is_production_ready_def one_pipeline_service_def fallback_only_service_def)
  have c: "predict example_env one_pipeline_service example_canonical_vector ''all''
     = Inr ([''cost_prediction'' \<mapsto> Num 120], one_pipeline_service)"
    by (simp add: predict_def predict_production_def example_env_def canonical_frame bindE_def
        one_pipeline_service_def fallback_only_service_def)
  have conf: "calculate_confidence example_canonical_vector = Inr 100"
    by (simp add: calculate_confidence_def quality_adjustments_def bindE_def py_gt_def py_lt_def
        dict_get_def base_confidence_def completeness_factors_def key_features_def present_def
        py_round1_def Let_def example_canonical_vector_def)
  have cpm: "cost_per_month (\<lambda>a b. Inl TypeError) example_canonical_vector = Inr (Finite (150 / 12))"
    by (simp add: cost_per_month_def column_def pd_truediv_def bindE_def example_canonical_vector_def)
  have risk: "assess_risk [''delay_months'' \<mapsto> 4, ''cost_overrun_pct'' \<mapsto> 12,
             ''total_cost_cr'' \<mapsto> 160, ''timeline_months'' \<mapsto> 28] = ''Medium''"
    by (simp add: assess_risk_def assess_risk_score_def cost_overrun_points_def delay_points_def
        pred_get_def)
  have nd: "(num_dict [''delay_months'' \<mapsto> 4, ''cost_overrun_pct'' \<mapsto> 12,
             ''total_cost_cr'' \<mapsto> 160, ''timeline_months'' \<mapsto> 28])
       (''risk_assessment'' \<mapsto> Str ''Medium'', ''confidence_score'' \<mapsto> Num 100)
     = [''delay_months'' \<mapsto> Num 4, ''cost_overrun_pct'' \<mapsto> Num 12,
             ''total_cost_cr'' \<mapsto> Num 160, ''timeline_months'' \<mapsto> Num 28,
             ''risk_assessment'' \<mapsto> Str ''Medium'', ''confidence_score'' \<mapsto> Num 100]"
    by (rule ext) (simp add: num_dict_def)
  have d: "predict_fallback example_env one_pipeline_service example_canonical_vector ''all''
     = Inr ([''delay_months'' \<mapsto> Num 4, ''cost_overrun_pct'' \<mapsto> Num 12,
             ''total_cost_cr'' \<mapsto> Num 160, ''timeline_months'' \<mapsto> Num 28,
             ''risk_assessment'' \<mapsto> Str ''Medium'', ''confidence_score'' \<mapsto> Num 100],
            one_pipeline_service)"
    by (simp add: predict_fallback_def prepare_single_prediction_features_def
        fallback_model_predictions_def example_env_def cpm conf risk nd item_def bindE_def
        one_pipeline_service_def fallback_only_service_def)
  from a b c d show ?thesis by blast
qed


text \<open>
  Claim C1 (as amended). \<^verbatim>\<open>is_production_ready\<close> holds exactly when the loaded flag is
  set and at least two production pipelines are loaded. \<^verbatim>\<open>predict\<close> does not consult
  it: it uses the production pipelines whenever the loaded flag is set and at least one
  pipeline is loaded, and falls back to the auto-trained models otherwise. So it uses the
  production pipelines whenever \<^verbatim>\<open>is_production_ready\<close> holds, and it takes the fallback
  path whenever no production pipeline is loaded.
\<close>

theorem predict_path_selection:
  "(is_production_ready s \<longleftrightarrow> production_models_loaded s \<and> 2 \<le> length (production_pipelines s))
 \<and> (production_models_loaded s \<and> production_pipelines s \<noteq> []
      \<longrightarrow> predict env s features prediction_type
          = bindE (predict_production (float_of_string env) s features) (\<lambda>predictions. Inr (predictions, s)))
 \<and> (\<not> production_models_loaded s \<or> production_pipelines s = []
      \<longrightarrow> predict env s features prediction_type = predict_fallback env s features prediction_type)
 \<and> (is_production_ready s
      \<longrightarrow> predict env s features prediction_type
          = bindE (predict_production (float_of_string env) s features) (\<lambda>predictions. Inr (predictions, s)))"
proof -
  have r: "is_production_ready s \<Longrightarrow> production_models_loaded s \<and> production_pipelines s \<noteq> []"
    by (auto simp: is_production_ready_def)
  show ?thesis
    using r by (auto simp: predict_def is_production_ready_def)
qed

theorem predict_path_selection_witness:
  "predict example_env fallback_only_service example_canonical_vector ''all''
     = predict_fallback example_env fallback_only_service example_canonical_vector ''all''
 \<and> is_production_ready failing_overrun_service
 \<and> predict example_env failing_overrun_service test_project ''all''
     = bindE (predict_production digits_to_float failing_overrun_service test_project)
         (\<lambda>predictions. Inr (predictions, failing_overrun_service))
 \<and> predict example_env one_pipeline_service test_project ''all''
     = bindE (predict_production digits_to_float one_pipeline_service test_project)
         (\<lambda>predictions. Inr (predictions, one_pipeline_service))"
proof -
  have a: "production_pipelines fallback_only_service = []"
    by (simp add: fallback_only_service_def)
  have b: "is_production_ready failing_overrun_service"
    by (simp add: is_production_ready_def failing_overrun_service_def fallback_only_service_def)
  have c: "production_models_loaded one_pipeline_service \<and> production_pipelines one_pipeline_service \<noteq> []"
    by (simp add: one_pipeline_service_def fallback_only_service_def)
  have e: "float_of_string example_env = digits_to_float" by (simp add: example_env_def)
  show ?thesis
    using a b c e
      predict_path_selection [of fallback_only_service example_env example_canonical_vector "''all''"]
      predict_path_selection [of failing_overrun_service example_env test_project "''all''"]
      predict_path_selection [of one_pipeline_service example_env test_project "''all''"]
    by simp
qed

lemma test_project_frame:
  "production_features digits_to_float test_project =
     Inr [(''Project_Type'', Text (Lit ''Overhead Line'')),
      (''State'', Text (Lit ''Maharashtra'')),
      (''Latitude'', Float 19.0760),
      (''Longitude'', Float 72.8777),
      (''Terrain'', Text (Lit ''Plains'')), (''Base_Cost_Cr'', Float 150),
      (''Steel_Price_Index'', Float 100),
      (''Cement_Price_Index'', Float 100),
      (''Labour_Wage_RsPerDay'', Float 500),
      (''Regulatory_Delay_months'', Float 2),
      (''Historical_Delay_Count'', Float 1),
      (''Avg_Annual_Rainfall_cm'', Float 120),
      (''Vendor_Reliability'', Float 0.8),
      (''Material_Availability_Index'', Float 0.8),
      (''Demand_Supply_Pressure'', Text (Lit ''Medium'')),
      (''Skilled_Manpower_pct'', Float 0.7),
      (''Delay_months'', Float 0), (''Planned_Timeline_months'', Float 24),
      (''Cost_per_planned_month'', Float (150 / 24)),
      (''Env_Risk_Index'', Float 0.3)]"
  by (simp add: frame_defs test_project_def)

text \<open>
  Claim C3, evaluated on the code. With the overrun pipeline raising, the production
  branch of \<^verbatim>\<open>predict\<close> returns 0 for \<^verbatim>\<open>overrun_prediction\<close> and the other two
  pipelines' predictions unchanged, and returns at once: the dict has no
  \<^verbatim>\<open>risk_assessment\<close> and no \<^verbatim>\<open>confidence_score\<close> entry.
\<close>

theorem production_branch_returns_no_assessment:
  "predict example_env failing_overrun_service test_project ''all''
     = Inr ([''cost_prediction'' \<mapsto> Num 120, ''overrun_prediction'' \<mapsto> Num 0,
             ''timeline_prediction'' \<mapsto> Num 30], failing_overrun_service)
 \<and> [''cost_prediction'' \<mapsto> Num 120, ''overrun_prediction'' \<mapsto> Num 0,
      ''timeline_prediction'' \<mapsto> Num 30] ''risk_assessment'' = None
 \<and> [''cost_prediction'' \<mapsto> Num 120, ''overrun_prediction'' \<mapsto> Num 0,
      ''timeline_prediction'' \<mapsto> Num 30] ''confidence_score'' = None"
  by (simp add: predict_def predict_production_def example_env_def test_project_frame bindE_def
      failing_overrun_service_def fallback_only_service_def)

lemma run_pipelines_other:
  "name \<notin> fst ` set ps \<Longrightarrow> run_pipelines ps df acc name = acc name"
proof (induction ps arbitrary: acc)
  case Nil
  then show ?case by simp
next
  case (Cons p ps)
  obtain n m where p: "p = (n, m)" by (cases p)
  from Cons.prems p have "name \<noteq> n" "name \<notin> fst ` set ps" by auto
  then show ?case by (simp add: p Cons.IH)
qed

lemma run_pipelines_entry:
  "distinct (map fst ps) \<Longrightarrow> (name, m) \<in> set ps \<Longrightarrow>
   run_pipelines ps df acc name = Some (case m df of Inr pred \<Rightarrow> Num pred | Inl e \<Rightarrow> Num 0)"
proof (induction ps arbitrary: acc)
  case Nil
  then show ?case by simp
next
  case (Cons p ps)
  obtain n k where p: "p = (n, k)" by (cases p)
  show ?case
  proof (cases "(name, m) = (n, k)")
    case True
    from Cons.prems(1) p have "n \<notin> fst ` set ps" by auto
    with True have "name \<notin> fst ` set ps" by simp
    from run_pipelines_other [OF this] True show ?thesis by (simp add: p)
  next
    case False
    with Cons.prems(2) p have "(name, m) \<in> set ps" by auto
    moreover from Cons.prems(1) have "distinct (map fst ps)" by simp
    ultimately show ?thesis by (simp add: p Cons.IH)
  qed
qed

lemma run_pipelines_dom:
  "dom (run_pipelines ps df acc) = dom acc \<union> fst ` set ps"
proof (induction ps arbitrary: acc)
  case Nil
  then show ?case by simp
next
  case (Cons p ps)
  obtain n k where p: "p = (n, k)" by (cases p)
  have "dom (run_pipelines (p # ps) df acc)
      = dom (acc(n \<mapsto> (case k df of Inr pred \<Rightarrow> Num pred | Inl e \<Rightarrow> Num 0))) \<union> fst ` set ps"
    unfolding p run_pipelines.simps by (rule Cons.IH)
  also have "\<dots> = dom acc \<union> fst ` set (p # ps)"
    unfolding dom_fun_upd by (simp add: p)
  finally show ?case .
qed

subsection \<open>The production feature frame\<close>















subsection \<open>Cost per month\<close>





subsection \<open>Numeric coercion\<close>
























subsection \<open>Retraining\<close>




















end
